theory Spec2Isabelle
  imports Complex_Main "HOL-Library.Word"
begin

section \<open>JavaScript values\<close>

text \<open>
  The builders of \<^verbatim>\<open>operation.js\<close> and the constructor of \<^verbatim>\<open>account.js\<close> validate
  dynamically typed arguments, so the arguments are modelled as JavaScript values.
  A finite number is kept as the rational it denotes (every double is one); strings are
  lists of code units below 256; a \<^verbatim>\<open>Buffer\<close> is a list of bytes.
\<close>

type_synonym bytes = "8 word list"

datatype jsnum = NumNaN | NumInf bool | NumFin rat

datatype jsval =
    JUndefined
  | JNull
  | JBool bool
  | JNum jsnum
  | JStr string
  | JBuf bytes
  | JObj "(string \<times> jsval) list"

datatype error = Error string | TypeError string

text \<open>lodash \<^verbatim>\<open>isString\<close>, \<^verbatim>\<open>isUndefined\<close>, \<^verbatim>\<open>isNumber\<close>, \<^verbatim>\<open>isFinite\<close> and \<^verbatim>\<open>Buffer.isBuffer\<close>.\<close>

fun isString :: "jsval \<Rightarrow> bool" where
  "isString (JStr s) = True"
| "isString v = False"

fun isUndefined :: "jsval \<Rightarrow> bool" where
  "isUndefined JUndefined = True"
| "isUndefined v = False"

fun isNumber :: "jsval \<Rightarrow> bool" where
  "isNumber (JNum n) = True"
| "isNumber v = False"

fun isFinite :: "jsval \<Rightarrow> bool" where
  "isFinite (JNum (NumFin q)) = True"
| "isFinite v = False"

fun isBuffer :: "jsval \<Rightarrow> bool" where
  "isBuffer (JBuf b) = True"
| "isBuffer v = False"

text \<open>The truth value a JavaScript condition gives a value (\<^verbatim>\<open>if (opts.source)\<close>).\<close>

fun truthy :: "jsval \<Rightarrow> bool" where
  "truthy JUndefined = False"
| "truthy JNull = False"
| "truthy (JBool b) = b"
| "truthy (JNum NumNaN) = False"
| "truthy (JNum (NumInf s)) = True"
| "truthy (JNum (NumFin q)) = (q \<noteq> 0)"
| "truthy (JStr s) = (s \<noteq> [])"
| "truthy (JBuf b) = True"
| "truthy (JObj fs) = True"

section \<open>Decimal numerals\<close>

definition is_digit :: "char \<Rightarrow> bool" where
  "is_digit c = ((48::nat) \<le> of_char c \<and> of_char c \<le> (57::nat))"

definition digit_val :: "char \<Rightarrow> nat" where
  "digit_val c = of_char c - 48"

definition digit_char :: "nat \<Rightarrow> char" where
  "digit_char d = ''0123456789'' ! d"

definition nat_of_digits :: "string \<Rightarrow> nat" where
  "nat_of_digits ds = foldl (\<lambda>acc c. 10 * acc + digit_val c) 0 ds"

function digits_of_nat :: "nat \<Rightarrow> string" where
  "digits_of_nat n =
     (if n < 10 then [digit_char n] else digits_of_nat (n div 10) @ [digit_char (n mod 10)])"
  by pat_completeness auto
termination
  by (relation "measure id") auto

declare digits_of_nat.simps [simp del]

section \<open>The arbitrary-precision decimals of bignumber.js\<close>

text \<open>
  \<^verbatim>\<open>bignumber.js\<close> is a library the repository imports. A value is NaN, an infinity
  with its sign, or a finite decimal: a sign, a coefficient and a power of ten,
  \<open>BN_Finite neg c x\<close> denoting \<open>\<plusminus> c * 10 ^ x\<close>. The library keeps the coefficient
  free of trailing zeros and the exponent of the leading digit within
  \<open>\<plusminus> 1e9\<close>; \<open>normalise\<close> does both.
\<close>

datatype BigNumber = BN_NaN | BN_Infinity bool | BN_Finite bool nat int

definition MAX_EXP :: int where
  "MAX_EXP = 1000000000"

definition MIN_EXP :: int where
  "MIN_EXP = - 1000000000"

function strip_zeros :: "nat \<Rightarrow> int \<Rightarrow> nat \<times> int" where
  "strip_zeros c x =
     (if c = 0 then (0, 0)
      else if c mod 10 = 0 then strip_zeros (c div 10) (x + 1)
      else (c, x))"
  by pat_completeness auto
termination
  by (relation "measure fst") auto

declare strip_zeros.simps [simp del]

definition normalise :: "bool \<Rightarrow> nat \<Rightarrow> int \<Rightarrow> BigNumber" where
  "normalise neg c x =
     (case strip_zeros c x of (c', x') \<Rightarrow>
        if c' = 0 then BN_Finite neg 0 0
        else if x' + int (length (digits_of_nat c')) - 1 > MAX_EXP then BN_Infinity neg
        else if x' + int (length (digits_of_nat c')) - 1 < MIN_EXP then BN_Finite neg 0 0
        else BN_Finite neg c' x')"

text \<open>The number a finite value denotes.\<close>

definition pow10 :: "int \<Rightarrow> rat" where
  "pow10 x = (if 0 \<le> x then 10 ^ nat x else 1 / 10 ^ nat (- x))"

fun bn_val :: "BigNumber \<Rightarrow> rat" where
  "bn_val (BN_Finite neg c x) = (if neg then - 1 else 1) * of_nat c * pow10 x"
| "bn_val b = 0"

fun bn_isFinite :: "BigNumber \<Rightarrow> bool" where
  "bn_isFinite (BN_Finite neg c x) = True"
| "bn_isFinite b = False"

fun bn_isNaN :: "BigNumber \<Rightarrow> bool" where
  "bn_isNaN BN_NaN = True"
| "bn_isNaN b = False"

fun bn_isZero :: "BigNumber \<Rightarrow> bool" where
  "bn_isZero (BN_Finite neg c x) = (c = 0)"
| "bn_isZero b = False"

text \<open>\<^verbatim>\<open>isNegative\<close> reads the sign, so it holds of \<open>-0\<close>; NaN has no sign.\<close>

fun bn_isNegative :: "BigNumber \<Rightarrow> bool" where
  "bn_isNegative (BN_Finite neg c x) = neg"
| "bn_isNegative (BN_Infinity neg) = neg"
| "bn_isNegative BN_NaN = False"

text \<open>\<^verbatim>\<open>decimalPlaces\<close> is \<^verbatim>\<open>null\<close> for NaN and the infinities.\<close>

fun bn_decimalPlaces :: "BigNumber \<Rightarrow> nat option" where
  "bn_decimalPlaces (BN_Finite neg c x) = Some (nat (- x))"
| "bn_decimalPlaces b = None"

text \<open>A signed integer times a power of ten, as a value of the library.\<close>

definition bn_of_scaled :: "int \<Rightarrow> int \<Rightarrow> BigNumber" where
  "bn_of_scaled m x = normalise (m < 0) (nat \<bar>m\<bar>) x"

definition signed_coeff :: "bool \<Rightarrow> nat \<Rightarrow> int" where
  "signed_coeff neg c = (if neg then - int c else int c)"

text \<open>
  \<^verbatim>\<open>plus\<close> (alias \<^verbatim>\<open>add\<close>) is exact: both operands are brought to the smaller
  power of ten. NaN absorbs; opposite infinities give NaN.
\<close>

fun bn_plus :: "BigNumber \<Rightarrow> BigNumber \<Rightarrow> BigNumber" where
  "bn_plus BN_NaN b = BN_NaN"
| "bn_plus a BN_NaN = BN_NaN"
| "bn_plus (BN_Infinity s) (BN_Infinity t) = (if s = t then BN_Infinity s else BN_NaN)"
| "bn_plus (BN_Infinity s) b = BN_Infinity s"
| "bn_plus a (BN_Infinity t) = BN_Infinity t"
| "bn_plus (BN_Finite s c x) (BN_Finite t d y) =
     (if c = 0 \<and> d = 0 then BN_Finite (s \<and> t) 0 0
      else bn_of_scaled
        (signed_coeff s c * 10 ^ nat (x - min x y) + signed_coeff t d * 10 ^ nat (y - min x y))
        (min x y))"

text \<open>\<^verbatim>\<open>times\<close> (alias \<^verbatim>\<open>mul\<close>) is exact as well.\<close>

fun bn_times :: "BigNumber \<Rightarrow> BigNumber \<Rightarrow> BigNumber" where
  "bn_times BN_NaN b = BN_NaN"
| "bn_times a BN_NaN = BN_NaN"
| "bn_times (BN_Infinity s) (BN_Infinity t) = BN_Infinity (s \<noteq> t)"
| "bn_times (BN_Infinity s) (BN_Finite t d y) = (if d = 0 then BN_NaN else BN_Infinity (s \<noteq> t))"
| "bn_times (BN_Finite s c x) (BN_Infinity t) = (if c = 0 then BN_NaN else BN_Infinity (s \<noteq> t))"
| "bn_times (BN_Finite s c x) (BN_Finite t d y) = normalise (s \<noteq> t) (c * d) (x + y)"

text \<open>\<^verbatim>\<open>greaterThan\<close>: a comparison with NaN is false.\<close>

fun bn_greaterThan :: "BigNumber \<Rightarrow> BigNumber \<Rightarrow> bool" where
  "bn_greaterThan BN_NaN b = False"
| "bn_greaterThan a BN_NaN = False"
| "bn_greaterThan (BN_Infinity s) (BN_Infinity t) = (\<not> s \<and> t)"
| "bn_greaterThan (BN_Infinity s) (BN_Finite t d y) = (\<not> s)"
| "bn_greaterThan (BN_Finite s c x) (BN_Infinity t) = t"
| "bn_greaterThan (BN_Finite s c x) (BN_Finite t d y) =
     (signed_coeff s c * 10 ^ nat (x - min x y) > signed_coeff t d * 10 ^ nat (y - min x y))"


text \<open>
  \<^verbatim>\<open>div\<close> rounds the quotient to \<^verbatim>\<open>DECIMAL_PLACES\<close> = 20 places, half away from zero
  (\<^verbatim>\<open>ROUNDING_MODE\<close> 4, the library's defaults, which the repository does not change).
\<close>

definition DECIMAL_PLACES :: nat where
  "DECIMAL_PLACES = 20"

definition div_half_up :: "nat \<Rightarrow> nat \<Rightarrow> nat" where
  "div_half_up a b = (2 * a + b) div (2 * b)"

fun bn_div :: "BigNumber \<Rightarrow> BigNumber \<Rightarrow> BigNumber" where
  "bn_div BN_NaN b = BN_NaN"
| "bn_div a BN_NaN = BN_NaN"
| "bn_div (BN_Infinity s) (BN_Infinity t) = BN_NaN"
| "bn_div (BN_Infinity s) (BN_Finite t d y) = BN_Infinity (s \<noteq> t)"
| "bn_div (BN_Finite s c x) (BN_Infinity t) = BN_Finite (s \<noteq> t) 0 0"
| "bn_div (BN_Finite s c x) (BN_Finite t d y) =
     (if d = 0 then (if c = 0 then BN_NaN else BN_Infinity (s \<noteq> t))
      else if c = 0 then BN_Finite (s \<noteq> t) 0 0
      else let k = x - y + int DECIMAL_PLACES in
        normalise (s \<noteq> t)
          (if 0 \<le> k then div_half_up (c * 10 ^ nat k) d else div_half_up c (d * 10 ^ nat (- k)))
          (- int DECIMAL_PLACES))"

text \<open>
  \<^verbatim>\<open>toString\<close>: exponential notation when the exponent of the leading digit is at most
  \<^verbatim>\<open>TO_EXP_NEG\<close> = -7 or at least \<^verbatim>\<open>TO_EXP_POS\<close> = 21, positional notation otherwise.
\<close>

definition TO_EXP_NEG :: int where
  "TO_EXP_NEG = - 7"

definition TO_EXP_POS :: int where
  "TO_EXP_POS = 21"

definition show_int :: "int \<Rightarrow> string" where
  "show_int i = (if i < 0 then CHR ''-'' # digits_of_nat (nat (- i)) else digits_of_nat (nat i))"

definition toExponential :: "string \<Rightarrow> int \<Rightarrow> string" where
  "toExponential str e =
     (if length str > 1 then hd str # CHR ''.'' # tl str else str)
       @ (if e < 0 then ''e'' else ''e+'') @ show_int e"

definition toFixedPoint :: "string \<Rightarrow> int \<Rightarrow> string" where
  "toFixedPoint str e =
     (if e < 0 then ''0.'' @ replicate (nat (- e - 1)) (CHR ''0'') @ str
      else if e + 1 > int (length str)
        then str @ replicate (nat (e + 1 - int (length str))) (CHR ''0'')
      else if e + 1 < int (length str)
        then take (nat (e + 1)) str @ ''.'' @ drop (nat (e + 1)) str
      else str)"

fun bn_toString :: "BigNumber \<Rightarrow> string" where
  "bn_toString BN_NaN = ''NaN''"
| "bn_toString (BN_Infinity neg) = (if neg then ''-Infinity'' else ''Infinity'')"
| "bn_toString (BN_Finite neg c x) =
     (let str = digits_of_nat c;
          e = x + int (length str) - 1;
          r = (if e \<le> TO_EXP_NEG \<or> e \<ge> TO_EXP_POS then toExponential str e
               else toFixedPoint str e)
      in if neg \<and> c \<noteq> 0 then CHR ''-'' # r else r)"

text \<open>
  The constructor on a string. A string of the library's numeric form
  \<^verbatim>\<open>/^-?(\d+(\.\d*)?|\.\d+)(e[+-]?\d+)?$/i\<close> is read digit by digit; \<^verbatim>\<open>Infinity\<close> and
  \<^verbatim>\<open>NaN\<close> are values. Any other string goes to the library's \<^verbatim>\<open>parseNumeric\<close>, which
  raises "not a number" or, for some strings (surrounding blanks, a radix prefix), finds a
  number after all; that function is a parameter of the model (see \<open>env\<close> below).
\<close>

definition parse_exponent :: "string \<Rightarrow> int option" where
  "parse_exponent r =
     (case r of
        [] \<Rightarrow> Some 0
      | c # r' \<Rightarrow>
          if c = CHR ''e'' \<or> c = CHR ''E'' then
            (let neg = (r' \<noteq> [] \<and> hd r' = CHR ''-'');
                 ds = (if r' \<noteq> [] \<and> (hd r' = CHR ''-'' \<or> hd r' = CHR ''+'') then tl r' else r')
             in if ds \<noteq> [] \<and> list_all is_digit ds
                then Some (if neg then - int (nat_of_digits ds) else int (nat_of_digits ds))
                else None)
          else None)"

definition parse_numeric :: "string \<Rightarrow> (bool \<times> nat \<times> int) option" where
  "parse_numeric s =
     (let neg = (s \<noteq> [] \<and> hd s = CHR ''-'');
          r = (if neg then tl s else s);
          ip = takeWhile is_digit r;
          r1 = dropWhile is_digit r;
          hasdot = (r1 \<noteq> [] \<and> hd r1 = CHR ''.'');
          fp = (if hasdot then takeWhile is_digit (tl r1) else []);
          r2 = (if hasdot then dropWhile is_digit (tl r1) else r1)
      in if ip = [] \<and> fp = [] then None
         else case parse_exponent r2 of
                None \<Rightarrow> None
              | Some ex \<Rightarrow> Some (neg, nat_of_digits (ip @ fp), ex - int (length fp)))"

section \<open>Collaborators outside the modelled files\<close>

text \<open>
  \<^verbatim>\<open>operation.js\<close> and \<^verbatim>\<open>account.js\<close> call modules of the repository that are not among
  the modelled sources (\<^verbatim>\<open>strkey.js\<close>, \<^verbatim>\<open>keypair.js\<close>, the generated XDR tables), the
  fallback of the bignumber.js constructor, and host functions (\<^verbatim>\<open>Buffer.from\<close>,
  \<^verbatim>\<open>parseInt\<close>, \<^verbatim>\<open>Number.prototype.toString\<close>). They are parameters: every definition
  below takes them in an \<open>env\<close>, and the theorems hold for every \<open>env\<close>.
  \<^item> \<open>isValidEd25519PublicKey\<close>: \<^verbatim>\<open>StrKey.isValidEd25519PublicKey\<close>;
  \<^item> \<open>decodeEd25519PublicKey\<close>, \<open>encodeEd25519PublicKey\<close>: the StrKey codec for account ids;
  \<^item> \<open>fromPublicKey\<close>: \<^verbatim>\<open>Keypair.fromPublicKey(v).xdrAccountId()\<close>, the raw key of an
    address, or the error it throws;
  \<^item> \<open>AccountType_has\<close>, \<open>SignerType_has\<close>: \<^verbatim>\<open>xdr.AccountType._byValue.has\<close> and
    \<^verbatim>\<open>xdr.SignerType._byValue.has\<close>;
  \<^item> \<open>Buffer_from_hex\<close>: \<^verbatim>\<open>Buffer.from(s, "hex")\<close>, or the error it throws.
\<close>

record env =
  parseNumeric :: "string \<Rightarrow> error + BigNumber"
  isValidEd25519PublicKey :: "jsval \<Rightarrow> bool"
  decodeEd25519PublicKey :: "jsval \<Rightarrow> error + bytes"
  encodeEd25519PublicKey :: "bytes \<Rightarrow> string"
  fromPublicKey :: "jsval \<Rightarrow> error + bytes"
  AccountType_has :: "jsval \<Rightarrow> bool"
  SignerType_has :: "jsval \<Rightarrow> bool"
  Buffer_from_hex :: "string \<Rightarrow> error + bytes"
  parseInt :: "jsval \<Rightarrow> jsnum"
  Number_toString :: "jsnum \<Rightarrow> string"

definition BigNumber_new :: "env \<Rightarrow> string \<Rightarrow> error + BigNumber" where
  "BigNumber_new env s =
     (case parse_numeric s of
        Some (neg, c, x) \<Rightarrow> Inr (normalise neg c x)
      | None \<Rightarrow>
          if s = ''Infinity'' then Inr (BN_Infinity False)
          else if s = ''-Infinity'' then Inr (BN_Infinity True)
          else if s = ''NaN'' \<or> s = ''-NaN'' then Inr BN_NaN
          else parseNumeric env s)"

text \<open>The constructor on a non-negative integer of the number type (\<^verbatim>\<open>add(1)\<close>, \<^verbatim>\<open>ONE\<close>).\<close>

definition bn_of_nat :: "nat \<Rightarrow> BigNumber" where
  "bn_of_nat n = normalise False n 0"

section \<open>account.js\<close>

record Account =
  accountId_field :: jsval
  sequence :: BigNumber
  baseFee_field :: jsnum

definition Account_new :: "env \<Rightarrow> jsval \<Rightarrow> jsval \<Rightarrow> jsval \<Rightarrow> error + Account" where
  "Account_new env accountId' sequence' baseFee' =
     (if \<not> isValidEd25519PublicKey env accountId' then Inl (Error ''accountId is invalid'')
      else case sequence' of
        JStr s \<Rightarrow>
          (case BigNumber_new env s of
             Inl e \<Rightarrow> Inl e
           | Inr b \<Rightarrow> Inr \<lparr>accountId_field = accountId', sequence = b,
                          baseFee_field = parseInt env baseFee'\<rparr>)
      | _ \<Rightarrow> Inl (Error ''sequence must be of type string''))"

definition accountId :: "Account \<Rightarrow> jsval" where
  "accountId a = accountId_field a"

definition sequenceNumber :: "Account \<Rightarrow> string" where
  "sequenceNumber a = bn_toString (sequence a)"

definition baseFeeValue :: "env \<Rightarrow> Account \<Rightarrow> string" where
  "baseFeeValue env a = Number_toString env (baseFee_field a)"

definition incrementSequenceNumber :: "Account \<Rightarrow> Account" where
  "incrementSequenceNumber a = a\<lparr>sequence := bn_plus (sequence a) (bn_of_nat 1)\<rparr>"

section \<open>Host functions: \<^verbatim>\<open>parseFloat\<close>, \<^verbatim>\<open>Buffer\<close>\<close>

text \<open>
  \<^verbatim>\<open>parseFloat\<close> skips leading white space, reads the longest prefix that is a decimal
  literal (sign, digits, fraction, exponent, or \<^verbatim>\<open>Infinity\<close>), and returns the double nearest
  to it (ties to even), or NaN when there is no such prefix. \<open>to_double a b\<close> is the double
  nearest to the positive fraction \<open>a / b\<close>.
\<close>

function bitlen :: "nat \<Rightarrow> nat" where
  "bitlen n = (if n = 0 then 0 else Suc (bitlen (n div 2)))"
  by pat_completeness auto
termination
  by (relation "measure id") auto

declare bitlen.simps [simp del]

definition pow2 :: "int \<Rightarrow> rat" where
  "pow2 e = (if 0 \<le> e then 2 ^ nat e else 1 / 2 ^ nat (- e))"

definition div_half_even :: "nat \<Rightarrow> nat \<Rightarrow> nat" where
  "div_half_even a b =
     (let q = a div b; r = a mod b
      in if 2 * r < b then q else if b < 2 * r then q + 1 else if even q then q else q + 1)"

definition to_double :: "nat \<Rightarrow> nat \<Rightarrow> jsnum" where
  "to_double a b =
     (if a = 0 then NumFin 0
      else
        let e0 = int (bitlen a) - int (bitlen b);
            e1 = (if (if 0 \<le> e0 then b * 2 ^ nat e0 \<le> a else b \<le> a * 2 ^ nat (- e0))
                  then e0 else e0 - 1);
            k = max e1 (- 1022) - 52;
            n = (if 0 \<le> k then div_half_even a (b * 2 ^ nat k)
                 else div_half_even (a * 2 ^ nat (- k)) b)
        in if pow2 1024 \<le> of_nat n * pow2 k then NumInf False else NumFin (of_nat n * pow2 k))"

fun num_negate :: "jsnum \<Rightarrow> jsnum" where
  "num_negate NumNaN = NumNaN"
| "num_negate (NumInf s) = NumInf (\<not> s)"
| "num_negate (NumFin q) = NumFin (- q)"

definition is_space :: "char \<Rightarrow> bool" where
  "is_space c = ((of_char c :: nat) \<in> {9, 10, 11, 12, 13, 32, 160})"

definition exponent_prefix :: "string \<Rightarrow> int" where
  "exponent_prefix r =
     (case r of
        [] \<Rightarrow> 0
      | c # r' \<Rightarrow>
          if c = CHR ''e'' \<or> c = CHR ''E'' then
            (let neg = (r' \<noteq> [] \<and> hd r' = CHR ''-'');
                 ds = takeWhile is_digit
                   (if r' \<noteq> [] \<and> (hd r' = CHR ''-'' \<or> hd r' = CHR ''+'') then tl r' else r')
             in if ds = [] then 0
                else if neg then - int (nat_of_digits ds) else int (nat_of_digits ds))
          else 0)"

definition parseFloat :: "string \<Rightarrow> jsnum" where
  "parseFloat s =
     (let t = dropWhile is_space s;
          neg = (t \<noteq> [] \<and> hd t = CHR ''-'');
          r = (if t \<noteq> [] \<and> (hd t = CHR ''-'' \<or> hd t = CHR ''+'') then tl t else t);
          ip = takeWhile is_digit r;
          r1 = dropWhile is_digit r;
          hasdot = (r1 \<noteq> [] \<and> hd r1 = CHR ''.'');
          fp = (if hasdot then takeWhile is_digit (tl r1) else []);
          r2 = (if hasdot then dropWhile is_digit (tl r1) else r1);
          x = exponent_prefix r2 - int (length fp);
          m = nat_of_digits (ip @ fp);
          d = (if 0 \<le> x then to_double (m * 10 ^ nat x) 1 else to_double m (10 ^ nat (- x)))
      in if take 8 r = ''Infinity'' then NumInf neg
         else if ip = [] \<and> fp = [] then NumNaN
         else if neg then num_negate d else d)"

text \<open>\<^verbatim>\<open>new Buffer(string)\<close>: the UTF-8 encoding, two bytes for a code unit from 128 to 255.\<close>

definition utf8_encode :: "string \<Rightarrow> bytes" where
  "utf8_encode s =
     concat (map (\<lambda>c. if (of_char c :: nat) < 128 then [of_char c]
                       else [of_nat (192 + of_char c div 64), of_nat (128 + of_char c mod 64)]) s)"

text \<open>The \<^verbatim>\<open>length\<close> property of a string (code units) or a buffer (bytes).\<close>

fun js_length :: "jsval \<Rightarrow> nat" where
  "js_length (JStr s) = length s"
| "js_length (JBuf b) = length b"
| "js_length v = 0"

section \<open>The 64-bit integers of js-xdr\<close>

text \<open>
  \<^verbatim>\<open>Hyper.fromString\<close> accepts \<^verbatim>\<open>/^-?\d+$/\<close> and reads the digits into a signed 64-bit
  integer, wrapping around; \<^verbatim>\<open>toString\<close> prints the signed value.
\<close>

type_synonym Hyper = "64 word"


definition Hyper_toString :: "Hyper \<Rightarrow> string" where
  "Hyper_toString h = show_int (sint h)"

section \<open>operation.js\<close>

subsection \<open>Options and XDR values\<close>

text \<open>
  The \<^verbatim>\<open>opts\<close> argument of the builders: every property a builder reads, each a
  JavaScript value (\<open>JUndefined\<close> when the caller left it out). The \<^verbatim>\<open>signer\<close>
  sub-object is present or not.
\<close>

record signer_opts =
  ed25519PublicKey :: jsval
  sha256Hash :: jsval
  preAuthTx :: jsval
  weight :: jsval
  signerType :: jsval

record opts =
  destination :: jsval
  startingBalance :: jsval
  accountType :: jsval
  amount :: jsval
  source :: jsval
  inflationDest :: jsval
  clearFlags :: jsval
  setFlags :: jsval
  masterWeight :: jsval
  lowThreshold :: jsval
  medThreshold :: jsval
  highThreshold :: jsval
  homeDomain :: jsval
  signer :: "signer_opts option"
  name :: jsval
  value_opt :: jsval
  baseFee :: jsval
  account :: jsval

text \<open>
  The XDR objects the builders construct. The constructors of js-xdr store their
  attributes without checking them, so an attribute the builder passes through is a
  JavaScript value; an account id is the raw key, an amount a \<open>Hyper\<close>.
\<close>

datatype xdr_Asset = assetTypeNative

datatype xdr_SignerKey =
    signerKeyTypeEd25519 bytes
  | signerKeyTypePreAuthTx bytes
  | signerKeyTypeHashX bytes

datatype xdr_Signer = Signer "xdr_SignerKey option" jsval jsval

record SetOptionsOp =
  op_inflationDest :: "bytes option"
  op_clearFlags :: jsval
  op_setFlags :: jsval
  op_masterWeight :: jsval
  op_lowThreshold :: jsval
  op_medThreshold :: jsval
  op_highThreshold :: jsval
  op_homeDomain :: jsval
  op_signer :: "xdr_Signer option"

datatype xdr_OperationBody =
    Body_createAccount bytes Hyper jsval
  | Body_emission bytes Hyper
  | Body_settlement Hyper
  | Body_payment bytes xdr_Asset Hyper
  | Body_setOption SetOptionsOp
  | Body_accountMerge bytes
  | Body_manageDatum jsval jsval
  | Body_spendFee bytes Hyper
  | Body_setFee jsval
  | Body_restrictAccount bytes jsval jsval

record xdr_Operation =
  sourceAccount :: "bytes option"
  body :: xdr_OperationBody

text \<open>Sequencing of steps that may throw.\<close>

definition bind_err :: "error + 'a \<Rightarrow> ('a \<Rightarrow> error + 'b) \<Rightarrow> error + 'b" where
  "bind_err m f = (case m of Inl e \<Rightarrow> Inl e | Inr x \<Rightarrow> f x)"

subsection \<open>Amounts\<close>

definition ONE :: nat where
  "ONE = 10000000"

definition MAX_INT64 :: string where
  "MAX_INT64 = ''9223372036854775807''"

text \<open>
  \<^verbatim>\<open>new BigNumber(MAX_INT64).toString()\<close>, read back by \<^verbatim>\<open>greaterThan\<close>: the numeral is
  printed as it stands, so the comparison is with \<open>2 ^ 63 - 1\<close>.
\<close>

definition MAX_INT64_BigNumber :: BigNumber where
  "MAX_INT64_BigNumber = bn_of_nat 9223372036854775807"

definition Operation_isValidAmount :: "env \<Rightarrow> jsval \<Rightarrow> bool \<Rightarrow> bool" where
  "Operation_isValidAmount env v allowZero =
     (case v of
        JStr s \<Rightarrow>
          (case BigNumber_new env s of
             Inl e \<Rightarrow> False
           | Inr amount' \<Rightarrow>
               if \<not> allowZero \<and> bn_isZero amount' then False
               else if bn_isNegative amount' then False
               else if bn_greaterThan (bn_times amount' (bn_of_nat ONE)) MAX_INT64_BigNumber
                 then False
               else if (case bn_decimalPlaces amount' of None \<Rightarrow> False | Some d \<Rightarrow> 7 < d)
                 then False
               else if \<not> bn_isFinite amount' then False
               else if bn_isNaN amount' then False
               else True)
      | _ \<Rightarrow> False)"



definition Operation_fromXDRAmount :: "env \<Rightarrow> Hyper \<Rightarrow> error + string" where
  "Operation_fromXDRAmount env h =
     bind_err (BigNumber_new env (Hyper_toString h))
       (\<lambda>b. Inr (bn_toString (bn_div b (bn_of_nat ONE))))"


subsection \<open>Shared checks\<close>

definition Operation_setSourceAccount :: "env \<Rightarrow> opts \<Rightarrow> error + bytes option" where
  "Operation_setSourceAccount env opts =
     (if truthy (source opts) then
        (if \<not> isValidEd25519PublicKey env (source opts) then Inl (Error ''Source address is invalid'')
         else bind_err (fromPublicKey env (source opts)) (\<lambda>raw. Inr (Some raw)))
      else Inr None)"


definition Operation_isValidSignerType :: "env \<Rightarrow> jsval \<Rightarrow> bool" where
  "Operation_isValidSignerType env rawSignerType = SignerType_has env rawSignerType"


type_synonym validator = "rat \<Rightarrow> string \<Rightarrow> error + bool"

definition weightCheckFunction :: validator where
  "weightCheckFunction v nm =
     (if 0 \<le> v \<and> v \<le> 255 then Inr True
      else Inl (Error (nm @ '' value must be between 0 and 255'')))"

text \<open>\<^verbatim>\<open>value % 1\<close> of a finite number: what is left after dropping the integer part.\<close>

definition mod1 :: "rat \<Rightarrow> rat" where
  "mod1 q = q - of_int (if 0 \<le> q then \<lfloor>q\<rfloor> else \<lceil>q\<rceil>)"

definition Operation_checkUnsignedIntValue ::
    "string \<Rightarrow> jsval \<Rightarrow> validator option \<Rightarrow> error + jsval" where
  "Operation_checkUnsignedIntValue nm v isValidFunction =
     (if isUndefined v then Inr JUndefined
      else
        case (case v of JStr s \<Rightarrow> JNum (parseFloat s) | _ \<Rightarrow> v) of
          JNum (NumFin q) \<Rightarrow>
            if mod1 q \<noteq> 0 then Inl (Error (nm @ '' value is invalid''))
            else if q < 0 then Inl (Error (nm @ '' value must be unsigned''))
            else (case isValidFunction of
                    None \<Rightarrow> Inr (JNum (NumFin q))
                  | Some f \<Rightarrow>
                      bind_err (f q nm)
                        (\<lambda>ok. if ok then Inr (JNum (NumFin q))
                              else Inl (Error (nm @ '' value is invalid''))))
        | _ \<Rightarrow> Inl (Error (nm @ '' value is invalid'')))"

subsection \<open>The builders\<close>







definition Operation_manageData :: "env \<Rightarrow> opts \<Rightarrow> error + xdr_Operation" where
  "Operation_manageData env opts =
     (if \<not> (isString (name opts) \<and> js_length (name opts) \<le> 64)
        then Inl (Error ''name must be a string, up to 64 characters'')
      else if \<not> isString (value_opt opts) \<and> \<not> isBuffer (value_opt opts) \<and> value_opt opts \<noteq> JNull
        then Inl (Error ''value must be a string, Buffer or null'')
      else
        let dataValue = (case value_opt opts of JStr s \<Rightarrow> JBuf (utf8_encode s) | v \<Rightarrow> v)
        in if dataValue \<noteq> JNull \<and> 64 < js_length dataValue
             then Inl (Error ''value cannot be longer that 64 bytes'')
           else
             bind_err (Operation_setSourceAccount env opts) (\<lambda>src.
               Inr \<lparr>sourceAccount = src, body = Body_manageDatum (name opts) dataValue\<rparr>))"



subsection \<open>\<^verbatim>\<open>setOptions\<close>\<close>

text \<open>
  The builder assigns to \<^verbatim>\<open>opts.signer.preAuthTx\<close> and \<^verbatim>\<open>opts.signer.sha256Hash\<close>, so it
  returns, next to its result or the error it throws, the \<^verbatim>\<open>opts\<close> object as the call
  leaves it. \<open>signer_state\<close> holds the locals \<^verbatim>\<open>key\<close> and \<^verbatim>\<open>setValues\<close> together with the
  signer sub-object.
\<close>

definition setOptions_attributes :: "env \<Rightarrow> opts \<Rightarrow> error + SetOptionsOp" where
  "setOptions_attributes env opts =
     bind_err
       (if truthy (inflationDest opts) then
          (if \<not> isValidEd25519PublicKey env (inflationDest opts)
           then Inl (Error ''inflationDest is invalid'')
           else bind_err (fromPublicKey env (inflationDest opts)) (\<lambda>raw. Inr (Some raw)))
        else Inr None) (\<lambda>dest.
     bind_err (Operation_checkUnsignedIntValue ''clearFlags'' (clearFlags opts) None) (\<lambda>cf.
     bind_err (Operation_checkUnsignedIntValue ''setFlags'' (setFlags opts) None) (\<lambda>sf.
     bind_err (Operation_checkUnsignedIntValue ''masterWeight'' (masterWeight opts)
        (Some weightCheckFunction)) (\<lambda>mw.
     bind_err (Operation_checkUnsignedIntValue ''lowThreshold'' (lowThreshold opts)
        (Some weightCheckFunction)) (\<lambda>lt.
     bind_err (Operation_checkUnsignedIntValue ''medThreshold'' (medThreshold opts)
        (Some weightCheckFunction)) (\<lambda>mt.
     bind_err (Operation_checkUnsignedIntValue ''highThreshold'' (highThreshold opts)
        (Some weightCheckFunction)) (\<lambda>ht.
       if \<not> isUndefined (homeDomain opts) \<and> \<not> isString (homeDomain opts)
       then Inl (TypeError ''homeDomain argument must be of type String'')
       else Inr \<lparr>op_inflationDest = dest, op_clearFlags = cf, op_setFlags = sf,
                 op_masterWeight = mw, op_lowThreshold = lt, op_medThreshold = mt,
                 op_highThreshold = ht, op_homeDomain = homeDomain opts,
                 op_signer = None\<rparr>)))))))"

record signer_state =
  st_signer :: signer_opts
  st_key :: "xdr_SignerKey option"
  st_setValues :: nat

definition signer_ed25519 :: "env \<Rightarrow> signer_state \<Rightarrow> error option \<times> signer_state" where
  "signer_ed25519 env st =
     (if truthy (ed25519PublicKey (st_signer st)) then
        (if \<not> isValidEd25519PublicKey env (ed25519PublicKey (st_signer st))
         then (Some (Error ''signer.ed25519PublicKey is invalid.''), st)
         else case decodeEd25519PublicKey env (ed25519PublicKey (st_signer st)) of
                Inl e \<Rightarrow> (Some e, st)
              | Inr rawKey \<Rightarrow>
                  (None, st\<lparr>st_key := Some (signerKeyTypeEd25519 rawKey),
                            st_setValues := st_setValues st + 1\<rparr>))
      else (None, st))"

text \<open>
  A hash given as a string is first replaced, in the caller's object, by
  \<^verbatim>\<open>Buffer.from(s, "hex")\<close>; the length check comes after the assignment.
\<close>

definition hex_to_buffer :: "env \<Rightarrow> jsval \<Rightarrow> error + jsval" where
  "hex_to_buffer env v =
     (case v of
        JStr h \<Rightarrow> bind_err (Buffer_from_hex env h) (\<lambda>b. Inr (JBuf b))
      | _ \<Rightarrow> Inr v)"

definition is_32_bytes :: "jsval \<Rightarrow> bool" where
  "is_32_bytes v = (isBuffer v \<and> js_length v = 32)"

fun buffer_bytes :: "jsval \<Rightarrow> bytes" where
  "buffer_bytes (JBuf b) = b"
| "buffer_bytes v = []"

definition signer_preAuthTx :: "env \<Rightarrow> signer_state \<Rightarrow> error option \<times> signer_state" where
  "signer_preAuthTx env st =
     (if truthy (preAuthTx (st_signer st)) then
        (case hex_to_buffer env (preAuthTx (st_signer st)) of
           Inl e \<Rightarrow> (Some e, st)
         | Inr v \<Rightarrow>
             if \<not> is_32_bytes v
             then (Some (Error ''signer.preAuthTx must be 32 bytes Buffer.''),
                   st\<lparr>st_signer := (st_signer st)\<lparr>preAuthTx := v\<rparr>\<rparr>)
             else (None, st\<lparr>st_signer := (st_signer st)\<lparr>preAuthTx := v\<rparr>,
                            st_key := Some (signerKeyTypePreAuthTx (buffer_bytes v)),
                            st_setValues := st_setValues st + 1\<rparr>))
      else (None, st))"

definition signer_sha256Hash :: "env \<Rightarrow> signer_state \<Rightarrow> error option \<times> signer_state" where
  "signer_sha256Hash env st =
     (if truthy (sha256Hash (st_signer st)) then
        (case hex_to_buffer env (sha256Hash (st_signer st)) of
           Inl e \<Rightarrow> (Some e, st)
         | Inr v \<Rightarrow>
             if \<not> is_32_bytes v
             then (Some (Error ''signer.sha256Hash must be 32 bytes Buffer.''),
                   st\<lparr>st_signer := (st_signer st)\<lparr>sha256Hash := v\<rparr>\<rparr>)
             else (None, st\<lparr>st_signer := (st_signer st)\<lparr>sha256Hash := v\<rparr>,
                            st_key := Some (signerKeyTypeHashX (buffer_bytes v)),
                            st_setValues := st_setValues st + 1\<rparr>))
      else (None, st))"

definition then_step ::
    "error option \<times> signer_state \<Rightarrow> (signer_state \<Rightarrow> error option \<times> signer_state) \<Rightarrow>
      error option \<times> signer_state" where
  "then_step r f = (case fst r of Some e \<Rightarrow> r | None \<Rightarrow> f (snd r))"

definition signer_keys :: "env \<Rightarrow> signer_opts \<Rightarrow> error option \<times> signer_state" where
  "signer_keys env sg =
     then_step
       (then_step (signer_ed25519 env \<lparr>st_signer = sg, st_key = None, st_setValues = 0\<rparr>)
          (signer_preAuthTx env))
       (signer_sha256Hash env)"

definition setOptions_signer ::
    "env \<Rightarrow> signer_opts \<Rightarrow> (error + xdr_Signer) \<times> signer_opts" where
  "setOptions_signer env sg =
     (case Operation_checkUnsignedIntValue ''signer.weight'' (weight sg) (Some weightCheckFunction) of
        Inl e \<Rightarrow> (Inl e, sg)
      | Inr w \<Rightarrow>
          if isUndefined (signerType sg) \<or> \<not> Operation_isValidSignerType env (signerType sg)
          then (Inl (Error ''Must provide a valid signerType''), sg)
          else
            let r = signer_keys env sg; st = snd r
            in (case fst r of
                  Some e \<Rightarrow> Inl e
                | None \<Rightarrow>
                    if st_setValues st \<noteq> 1
                    then Inl (Error ''Signer object must contain exactly one of signer.ed25519PublicKey, signer.sha256Hash, signer.preAuthTx.'')
                    else Inr (Signer (st_key st) w (signerType sg)),
                st_signer st))"

definition Operation_setOptions :: "env \<Rightarrow> opts \<Rightarrow> (error + xdr_Operation) \<times> opts" where
  "Operation_setOptions env opts =
     (case setOptions_attributes env opts of
        Inl e \<Rightarrow> (Inl e, opts)
      | Inr attributes \<Rightarrow>
          (case signer opts of
             None \<Rightarrow>
               (bind_err (Operation_setSourceAccount env opts) (\<lambda>src.
                  Inr \<lparr>sourceAccount = src, body = Body_setOption attributes\<rparr>),
                opts)
           | Some sg \<Rightarrow>
               (bind_err (fst (setOptions_signer env sg)) (\<lambda>s.
                bind_err (Operation_setSourceAccount env opts) (\<lambda>src.
                  Inr \<lparr>sourceAccount = src,
                       body = Body_setOption (attributes\<lparr>op_signer := Some s\<rparr>)\<rparr>)),
                opts\<lparr>signer := Some (snd (setOptions_signer env sg))\<rparr>)))"

subsection \<open>\<^verbatim>\<open>fromXDRObject\<close>\<close>

text \<open>
  The decoded object is the list of its properties, in the order the function assigns
  them; \<open>get_prop\<close> reads one (\<^verbatim>\<open>undefined\<close> when it was never assigned). The body is a value of
  a closed type, so the \<^verbatim>\<open>default\<close> branch of the \<^verbatim>\<open>switch\<close> ("Unknown operation") has
  no counterpart.
\<close>

type_synonym js_object = "(string \<times> jsval) list"

definition get_prop :: "js_object \<Rightarrow> string \<Rightarrow> jsval" where
  "get_prop obj k = (case map_of obj k of None \<Rightarrow> JUndefined | Some v \<Rightarrow> v)"

definition accountIdtoAddress :: "env \<Rightarrow> bytes \<Rightarrow> jsval" where
  "accountIdtoAddress env raw = JStr (encodeEd25519PublicKey env raw)"

text \<open>
  Modelled from the spec: \<^verbatim>\<open>asset.js\<close> is not among the sources. The payment builder
  always uses the native asset, and \<^verbatim>\<open>Asset.fromOperation\<close> gives it back.
\<close>

definition Asset_fromOperation :: "xdr_Asset \<Rightarrow> jsval" where
  "Asset_fromOperation a = (case a of assetTypeNative \<Rightarrow> JObj [(''type'', JStr ''native'')])"

definition signer_fromXDR :: "env \<Rightarrow> xdr_Signer \<Rightarrow> error + jsval" where
  "signer_fromXDR env s =
     (case s of
        Signer None w t \<Rightarrow> Inl (TypeError ''Cannot read property arm of undefined'')
      | Signer (Some (signerKeyTypeEd25519 raw)) w t \<Rightarrow>
          Inr (JObj [(''ed25519PublicKey'', accountIdtoAddress env raw),
                     (''weight'', w), (''signerType'', t)])
      | Signer (Some (signerKeyTypePreAuthTx b)) w t \<Rightarrow>
          Inr (JObj [(''preAuthTx'', JBuf b), (''weight'', w), (''signerType'', t)])
      | Signer (Some (signerKeyTypeHashX b)) w t \<Rightarrow>
          Inr (JObj [(''sha256Hash'', JBuf b), (''weight'', w), (''signerType'', t)]))"

definition setOption_properties :: "env \<Rightarrow> SetOptionsOp \<Rightarrow> js_object \<Rightarrow> js_object" where
  "setOption_properties env attrs sg =
     [(''type'', JStr ''setOptions'')]
     @ (case op_inflationDest attrs of
          None \<Rightarrow> []
        | Some raw \<Rightarrow> [(''inflationDest'', accountIdtoAddress env raw)])
     @ [(''clearFlags'', op_clearFlags attrs), (''setFlags'', op_setFlags attrs),
        (''masterWeight'', op_masterWeight attrs),
        (''lowThreshold'', op_lowThreshold attrs),
        (''medThreshold'', op_medThreshold attrs),
        (''highThreshold'', op_highThreshold attrs),
        (''homeDomain'', op_homeDomain attrs)]
     @ sg"

definition fromXDR_body :: "env \<Rightarrow> xdr_OperationBody \<Rightarrow> error + js_object" where
  "fromXDR_body env b =
     (case b of
        Body_createAccount dest bal ty \<Rightarrow>
          bind_err (Operation_fromXDRAmount env bal) (\<lambda>a.
            Inr [(''type'', JStr ''createAccount''), (''destination'', accountIdtoAddress env dest),
                 (''startingBalance'', JStr a), (''accountType'', ty)])
      | Body_emission dest amt \<Rightarrow>
          bind_err (Operation_fromXDRAmount env amt) (\<lambda>a.
            Inr [(''type'', JStr ''emission''), (''destination'', accountIdtoAddress env dest),
                 (''amount'', JStr a)])
      | Body_settlement amt \<Rightarrow>
          bind_err (Operation_fromXDRAmount env amt) (\<lambda>a.
            Inr [(''type'', JStr ''settlement''), (''amount'', JStr a)])
      | Body_payment dest ast amt \<Rightarrow>
          bind_err (Operation_fromXDRAmount env amt) (\<lambda>a.
            Inr [(''type'', JStr ''payment''), (''destination'', accountIdtoAddress env dest),
                 (''asset'', Asset_fromOperation ast), (''amount'', JStr a)])
      | Body_setOption attrs \<Rightarrow>
          bind_err (case op_signer attrs of
                      None \<Rightarrow> Inr []
                    | Some s \<Rightarrow> bind_err (signer_fromXDR env s) (\<lambda>j. Inr [(''signer'', j)])) (\<lambda>sg.
            Inr (setOption_properties env attrs sg))
      | Body_accountMerge dest \<Rightarrow>
          Inr [(''type'', JStr ''accountMerge''), (''destination'', accountIdtoAddress env dest)]
      | Body_manageDatum nm v \<Rightarrow>
          Inr [(''type'', JStr ''manageData''), (''name'', nm), (''value'', v)]
      | Body_spendFee dest amt \<Rightarrow>
          bind_err (Operation_fromXDRAmount env amt) (\<lambda>a.
            Inr [(''type'', JStr ''spendFee''), (''destination'', accountIdtoAddress env dest),
                 (''amount'', JStr a)])
      | Body_setFee fee \<Rightarrow>
          Inr [(''type'', JStr ''setFee''), (''baseFee'', fee)]
      | Body_restrictAccount acc cf sf \<Rightarrow>
          Inr [(''type'', JStr ''restrictAccount''), (''account'', accountIdtoAddress env acc),
               (''clearFlags'', cf), (''setFlags'', sf)])"

definition source_property :: "env \<Rightarrow> bytes option \<Rightarrow> js_object" where
  "source_property env src =
     (case src of None \<Rightarrow> [] | Some raw \<Rightarrow> [(''source'', accountIdtoAddress env raw)])"

definition Operation_fromXDRObject :: "env \<Rightarrow> xdr_Operation \<Rightarrow> error + js_object" where
  "Operation_fromXDRObject env operation =
     bind_err (fromXDR_body env (body operation)) (\<lambda>fs.
       Inr (source_property env (sourceAccount operation) @ fs))"

section \<open>A reference instance of the collaborators\<close>

text \<open>
  Modelled from the spec: \<^verbatim>\<open>strkey.js\<close> is not among the sources. The specification
  (sections 4.1 and 6) describes the codec: \<^verbatim>\<open>encode\<close> puts a version byte in front of the
  payload, appends the CRC-16/XMODEM checksum of both (two bytes, low byte first) and
  writes the result in base 32 without padding (the alphabet of RFC 4648); \<^verbatim>\<open>decode\<close>
  undoes the base 32, and fails on a wrong checksum, a wrong version byte, or a payload
  that is not 32 bytes long. The version byte of an account id is \<open>6 << 3\<close>.
\<close>

definition base32_alphabet :: string where
  "base32_alphabet = ''ABCDEFGHIJKLMNOPQRSTUVWXYZ234567''"

definition base32_index :: "char \<Rightarrow> nat" where
  "base32_index c = length (takeWhile (\<lambda>x. x \<noteq> c) base32_alphabet)"

fun base32_to_bytes :: "nat \<Rightarrow> nat \<Rightarrow> nat list \<Rightarrow> bytes" where
  "base32_to_bytes acc n [] = []"
| "base32_to_bytes acc n (v # vs) =
     (if 8 \<le> n + 5
      then of_nat ((acc * 32 + v) div 2 ^ (n + 5 - 8))
             # base32_to_bytes ((acc * 32 + v) mod 2 ^ (n + 5 - 8)) (n + 5 - 8) vs
      else base32_to_bytes (acc * 32 + v) (n + 5) vs)"

definition base32_decode :: "string \<Rightarrow> bytes option" where
  "base32_decode s =
     (if list_all (\<lambda>c. c \<in> set base32_alphabet) s
      then Some (base32_to_bytes 0 0 (map base32_index s))
      else None)"

fun base32_of_bytes :: "nat \<Rightarrow> nat \<Rightarrow> bytes \<Rightarrow> string" where
  "base32_of_bytes acc n [] = (if n = 0 then [] else [base32_alphabet ! (acc * 2 ^ (5 - n))])"
| "base32_of_bytes acc n (b # bs) =
     (if 10 \<le> n + 8
      then base32_alphabet ! ((acc * 256 + unat b) div 2 ^ (n + 8 - 5))
             # base32_alphabet ! ((acc * 256 + unat b) div 2 ^ (n + 8 - 10) mod 32)
             # base32_of_bytes ((acc * 256 + unat b) mod 2 ^ (n + 8 - 10)) (n + 8 - 10) bs
      else base32_alphabet ! ((acc * 256 + unat b) div 2 ^ (n + 8 - 5))
             # base32_of_bytes ((acc * 256 + unat b) mod 2 ^ (n + 8 - 5)) (n + 8 - 5) bs)"

definition base32_encode :: "bytes \<Rightarrow> string" where
  "base32_encode bs = base32_of_bytes 0 0 bs"

definition crc16_shift :: "16 word \<Rightarrow> 16 word" where
  "crc16_shift c = (if bit c 15 then xor (push_bit 1 c) 4129 else push_bit 1 c)"

definition crc16_byte :: "16 word \<Rightarrow> 8 word \<Rightarrow> 16 word" where
  "crc16_byte c b =
     crc16_shift (crc16_shift (crc16_shift (crc16_shift (crc16_shift (crc16_shift
       (crc16_shift (crc16_shift (xor c (push_bit 8 (ucast b))))))))))"

definition crc16xmodem :: "bytes \<Rightarrow> 16 word" where
  "crc16xmodem bs = foldl crc16_byte 0 bs"

definition calculateChecksum :: "bytes \<Rightarrow> bytes" where
  "calculateChecksum payload =
     [ucast (crc16xmodem payload), ucast (drop_bit 8 (crc16xmodem payload))]"

definition versionByte_ed25519PublicKey :: "8 word" where
  "versionByte_ed25519PublicKey = 48"

definition StrKey_encodeCheck :: "8 word \<Rightarrow> bytes \<Rightarrow> string" where
  "StrKey_encodeCheck version data =
     base32_encode (version # data @ calculateChecksum (version # data))"

definition StrKey_decodeCheck :: "8 word \<Rightarrow> jsval \<Rightarrow> error + bytes" where
  "StrKey_decodeCheck version v =
     (case v of
        JStr s \<Rightarrow>
          (case base32_decode s of
             None \<Rightarrow> Inl (Error ''invalid encoded string'')
           | Some decoded \<Rightarrow>
               if length decoded < 3 then Inl (Error ''invalid encoded string'')
               else if calculateChecksum (take (length decoded - 2) decoded)
                         \<noteq> drop (length decoded - 2) decoded
                 then Inl (Error ''invalid checksum'')
               else if hd decoded \<noteq> version then Inl (Error ''invalid version byte'')
               else if length decoded \<noteq> 35 then Inl (Error ''invalid length'')
               else Inr (take 32 (tl decoded)))
      | _ \<Rightarrow> Inl (TypeError ''encoded argument must be of type String''))"

definition StrKey_isValid :: "8 word \<Rightarrow> jsval \<Rightarrow> bool" where
  "StrKey_isValid version v = (case StrKey_decodeCheck version v of Inl e \<Rightarrow> False | Inr d \<Rightarrow> True)"

text \<open>
  \<^verbatim>\<open>Buffer.from(s, "hex")\<close> as Node 4 and 6 (the versions of the build matrix) compute it:
  a string of odd length is an error, and decoding stops at the first pair that is not
  two hexadecimal digits.
\<close>

definition hex_val :: "char \<Rightarrow> nat" where
  "hex_val c =
     min (length (takeWhile (\<lambda>x. x \<noteq> c) ''0123456789abcdef''))
         (length (takeWhile (\<lambda>x. x \<noteq> c) ''0123456789ABCDEF''))"

fun hex_pairs :: "string \<Rightarrow> bytes" where
  "hex_pairs (a # b # r) =
     (if hex_val a < 16 \<and> hex_val b < 16 then of_nat (16 * hex_val a + hex_val b) # hex_pairs r
      else [])"
| "hex_pairs r = []"

definition hex_decode :: "string \<Rightarrow> error + bytes" where
  "hex_decode s = (if odd (length s) then Inl (TypeError ''Invalid hex string'') else Inr (hex_pairs s))"

text \<open>
  The reference instance: the StrKey codec above; a bignumber.js fallback that always
  raises; enumeration tables with the single member 0; \<^verbatim>\<open>parseInt\<close> and number printing
  for strings of decimal digits and the whole numbers they denote.
\<close>

definition reference_parseInt :: "jsval \<Rightarrow> jsnum" where
  "reference_parseInt v =
     (case v of
        JStr s \<Rightarrow> if takeWhile is_digit s = [] then NumNaN
                  else to_double (nat_of_digits (takeWhile is_digit s)) 1
      | _ \<Rightarrow> NumNaN)"

definition reference_Number_toString :: "jsnum \<Rightarrow> string" where
  "reference_Number_toString n =
     (case n of
        NumFin q \<Rightarrow> if 0 \<le> q \<and> q = of_int \<lfloor>q\<rfloor> then digits_of_nat (nat \<lfloor>q\<rfloor>) else ''NaN''
      | NumInf s \<Rightarrow> if s then ''-Infinity'' else ''Infinity''
      | NumNaN \<Rightarrow> ''NaN'')"

definition reference_env :: env where
  "reference_env =
     \<lparr>parseNumeric = (\<lambda>s. Inl (Error (''new BigNumber() not a number: '' @ s))),
      isValidEd25519PublicKey = StrKey_isValid versionByte_ed25519PublicKey,
      decodeEd25519PublicKey = StrKey_decodeCheck versionByte_ed25519PublicKey,
      encodeEd25519PublicKey = StrKey_encodeCheck versionByte_ed25519PublicKey,
      fromPublicKey = StrKey_decodeCheck versionByte_ed25519PublicKey,
      AccountType_has = (\<lambda>v. v = JNum (NumFin 0)),
      SignerType_has = (\<lambda>v. v = JNum (NumFin 0)),
      Buffer_from_hex = hex_decode,
      parseInt = reference_parseInt,
      Number_toString = reference_Number_toString\<rparr>"

text \<open>
  An address of the repository's tests and the raw key it encodes, and the options
  object \<^verbatim>\<open>{}\<close>.
\<close>

definition test_address :: string where
  "test_address = ''GCEZWKCA5VLDNRLN3RPRJMRZOX3Z6G5CHCGSNFHEYVXM3XOJMDS674JZ''"

definition test_address_key :: bytes where
  "test_address_key =
     [137, 155, 40, 64, 237, 86, 54, 197, 109, 220, 95, 20, 178, 57, 117, 247,
      159, 27, 162, 56, 141, 38, 148, 228, 197, 110, 205, 221, 201, 96, 229, 239]"

definition empty_opts :: opts where
  "empty_opts =
     \<lparr>destination = JUndefined, startingBalance = JUndefined, accountType = JUndefined,
      amount = JUndefined, source = JUndefined, inflationDest = JUndefined,
      clearFlags = JUndefined, setFlags = JUndefined, masterWeight = JUndefined,
      lowThreshold = JUndefined, medThreshold = JUndefined, highThreshold = JUndefined,
      homeDomain = JUndefined, signer = None, name = JUndefined, value_opt = JUndefined,
      baseFee = JUndefined, account = JUndefined\<rparr>"

text \<open>How many of the three key fields of a signer sub-object are set (truthy).\<close>

definition key_fields_set :: "signer_opts \<Rightarrow> nat" where
  "key_fields_set sg =
     (if truthy (ed25519PublicKey sg) then 1 else 0)
     + (if truthy (preAuthTx sg) then 1 else 0)
     + (if truthy (sha256Hash sg) then 1 else 0)"

text \<open>Signer sub-objects used as examples: an account key with and without a weight, and
  a hash given as a hex string that is too short.\<close>

definition signer_with_weight :: signer_opts where
  "signer_with_weight =
     \<lparr>ed25519PublicKey = JStr test_address, sha256Hash = JUndefined, preAuthTx = JUndefined,
      weight = JNum (NumFin 1), signerType = JNum (NumFin 0)\<rparr>"

definition signer_without_weight :: signer_opts where
  "signer_without_weight =
     \<lparr>ed25519PublicKey = JStr test_address, sha256Hash = JUndefined, preAuthTx = JUndefined,
      weight = JUndefined, signerType = JNum (NumFin 0)\<rparr>"

definition signer_short_hash :: signer_opts where
  "signer_short_hash =
     \<lparr>ed25519PublicKey = JUndefined, sha256Hash = JUndefined, preAuthTx = JStr ''00ff'',
      weight = JNum (NumFin 1), signerType = JNum (NumFin 0)\<rparr>"





section \<open>What decoding gives back\<close>










section \<open>Decimal numerals and normal forms\<close>

lemma strip_zeros_pos:
  "0 < c \<Longrightarrow> strip_zeros c x = (c', x') \<Longrightarrow>
     0 < c' \<and> x \<le> x' \<and> c = c' * 10 ^ nat (x' - x) \<and> c' mod 10 \<noteq> 0"
proof (induction c x arbitrary: c' x' rule: strip_zeros.induct)
  case (1 c x)
  show ?case
  proof (cases "c mod 10 = 0")
    case True
    with "1.prems" have pos: "0 < c div 10" and eq: "strip_zeros (c div 10) (x + 1) = (c', x')"
      by (auto simp: strip_zeros.simps [of c x] Suc_le_eq)
    from "1.IH" [OF _ True pos eq] "1.prems"(1)
    have ih: "0 < c'" "x + 1 \<le> x'" "c div 10 = c' * 10 ^ nat (x' - (x + 1))" "c' mod 10 \<noteq> 0"
      by auto
    have "nat (x' - x) = Suc (nat (x' - (x + 1)))"
      using ih(2) by simp
    moreover have "c = 10 * (c div 10)"
      using True by auto
    ultimately show ?thesis
      using ih by simp
  next
    case False
    with "1.prems" show ?thesis
      by (simp add: strip_zeros.simps [of c x])
  qed
qed

lemma strip_zeros_0 [simp]: "strip_zeros 0 x = (0, 0)"
  by (simp add: strip_zeros.simps)

lemma strip_zeros_id: "0 < c \<Longrightarrow> c mod 10 \<noteq> 0 \<Longrightarrow> strip_zeros c x = (c, x)"
  by (simp add: strip_zeros.simps)

lemma strip_zeros_mult:
  "0 < c \<Longrightarrow> c mod 10 \<noteq> 0 \<Longrightarrow> strip_zeros (c * 10 ^ k) x = (c, x + int k)"
proof (induction k arbitrary: x)
  case 0
  then show ?case by (simp add: strip_zeros_id)
next
  case (Suc k)
  have "strip_zeros (10 * (c * 10 ^ k)) x = strip_zeros (c * 10 ^ k) (x + 1)"
    using Suc.prems by (subst strip_zeros.simps) simp
  then show ?case
    using Suc by (simp add: mult.left_commute)
qed

lemma digits_length_pos: "0 < length (digits_of_nat n)"
  by (simp add: digits_of_nat.simps [of n])

lemma digits_length_le: "n < 10 ^ k \<Longrightarrow> 0 < k \<Longrightarrow> length (digits_of_nat n) \<le> k"
proof (induction n arbitrary: k rule: digits_of_nat.induct)
  case (1 n)
  show ?case
  proof (cases "n < 10")
    case True
    then show ?thesis using "1.prems" by (simp add: digits_of_nat.simps [of n])
  next
    case False
    then obtain j where k: "k = Suc j"
      using "1.prems" by (cases k) auto
    have "0 < j"
      using False "1.prems" k by (cases j) auto
    moreover have "n div 10 < 10 ^ j"
      using "1.prems" k by (simp add: less_mult_imp_div_less mult.commute)
    ultimately have "length (digits_of_nat (n div 10)) \<le> j"
      using "1.IH" [OF False] by simp
    then show ?thesis
      using False k by (simp add: digits_of_nat.simps [of n])
  qed
qed

lemma digits_length_ge: "10 ^ k \<le> n \<Longrightarrow> k < length (digits_of_nat n)"
proof (induction n arbitrary: k rule: digits_of_nat.induct)
  case (1 n)
  show ?case
  proof (cases "n < 10")
    case True
    have "k = 0"
    proof (rule ccontr)
      assume "k \<noteq> 0"
      then have "(10::nat) ^ 1 \<le> 10 ^ k"
        by (intro power_increasing) auto
      then show False using "1.prems" True by simp
    qed
    then show ?thesis using digits_length_pos [of n] by simp
  next
    case False
    show ?thesis
    proof (cases k)
      case 0
      then show ?thesis using digits_length_pos [of n] by simp
    next
      case (Suc j)
      then have "10 ^ j \<le> n div 10"
        using "1.prems" by (simp add: less_eq_div_iff_mult_less_eq mult.commute)
      then have "j < length (digits_of_nat (n div 10))"
        using "1.IH" [OF False] by simp
      then show ?thesis
        using False Suc by (simp add: digits_of_nat.simps [of n])
    qed
  qed
qed

lemma digit_char_0: "digit_char 0 = CHR ''0''"
  by (simp add: digit_char_def)

lemma digits_mult10:
  "0 < c \<Longrightarrow> digits_of_nat (c * 10 ^ k) = digits_of_nat c @ replicate k (CHR ''0'')"
proof (induction k)
  case 0
  then show ?case by simp
next
  case (Suc k)
  have "\<not> 10 * (c * 10 ^ k) < 10"
    using Suc.prems by (simp add: not_less)
  then have "digits_of_nat (10 * (c * 10 ^ k)) = digits_of_nat (c * 10 ^ k) @ [digit_char 0]"
    by (subst digits_of_nat.simps) simp
  then show ?case
    using Suc by (simp add: digit_char_0 replicate_append_same mult.left_commute)
qed


lemma digit_val_digit_char: "d < 10 \<Longrightarrow> digit_val (digit_char d) = d"
proof -
  assume "d < 10"
  then have "d \<in> {0, 1, 2, 3, 4, 5, 6, 7, 8, 9}" by auto
  then show ?thesis
    by (auto simp: digit_val_def digit_char_def)
qed

lemma is_digit_digit_char: "d < 10 \<Longrightarrow> is_digit (digit_char d)"
proof -
  assume "d < 10"
  then have "d \<in> {0, 1, 2, 3, 4, 5, 6, 7, 8, 9}" by auto
  then show ?thesis
    by (auto simp: is_digit_def digit_char_def)
qed


lemma bn_of_nat_0: "bn_of_nat 0 = BN_Finite False 0 0"
  by (simp add: bn_of_nat_def normalise_def)

lemma bn_of_nat_shape:
  assumes "0 < n" "n < 10 ^ 21"
  shows "\<exists>c k. bn_of_nat n = BN_Finite False c (int k) \<and> 0 < c \<and> c mod 10 \<noteq> 0 \<and>
    n = c * 10 ^ k \<and> length (digits_of_nat c) + k \<le> 21"
proof -
  obtain c x where sz: "strip_zeros n 0 = (c, x)"
    by (cases "strip_zeros n 0")
  from strip_zeros_pos [OF assms(1) sz]
  have c: "0 < c" "0 \<le> x" "n = c * 10 ^ nat x" "c mod 10 \<noteq> 0"
    by auto
  have "digits_of_nat n = digits_of_nat c @ replicate (nat x) (CHR ''0'')"
    using c digits_mult10 by simp
  moreover have "length (digits_of_nat n) \<le> 21"
    using assms(2) by (rule digits_length_le) simp
  ultimately have len: "length (digits_of_nat c) + nat x \<le> 21"
    by simp
  then have "bn_of_nat n = BN_Finite False c (int (nat x))"
    using sz c by (simp add: bn_of_nat_def normalise_def MAX_EXP_def MIN_EXP_def)
  then show ?thesis
    using c len by blast
qed

lemma bn_toString_of_nat: "n < 10 ^ 21 \<Longrightarrow> bn_toString (bn_of_nat n) = digits_of_nat n"
proof (cases "n = 0")
  case True
  then show ?thesis
    by (simp add: bn_of_nat_0 digits_of_nat.simps [of 0] toFixedPoint_def TO_EXP_NEG_def
        TO_EXP_POS_def)
next
  case False
  assume "n < 10 ^ 21"
  with False obtain c k where s: "bn_of_nat n = BN_Finite False c (int k)" "0 < c"
    "n = c * 10 ^ k" "length (digits_of_nat c) + k \<le> 21"
    using bn_of_nat_shape [of n] by auto
  have "0 < length (digits_of_nat c)"
    by (rule digits_length_pos)
  then show ?thesis
    using s by (auto simp: Let_def toFixedPoint_def TO_EXP_NEG_def TO_EXP_POS_def digits_mult10)
qed

lemma bn_of_nat_1: "bn_of_nat 1 = BN_Finite False 1 0"
  by (simp add: bn_of_nat_def normalise_def strip_zeros.simps digits_of_nat.simps MAX_EXP_def MIN_EXP_def)

lemma bn_plus_one: "n < 10 ^ 21 \<Longrightarrow> bn_plus (bn_of_nat n) (bn_of_nat 1) = bn_of_nat (n + 1)"
proof (cases "n = 0")
  case True
  have "bn_plus (BN_Finite False 0 0) (BN_Finite False 1 0) = normalise False 1 0"
    by (simp add: bn_of_scaled_def signed_coeff_def)
  then have "bn_plus (bn_of_nat 0) (bn_of_nat 1) = bn_of_nat 1"
    by (simp only: bn_of_nat_0 bn_of_nat_1 bn_of_nat_def [of 1, symmetric])
  then show ?thesis
    using True by simp
next
  case False
  assume "n < 10 ^ 21"
  with False obtain c k where s: "bn_of_nat n = BN_Finite False c (int k)" "0 < c"
    "n = c * 10 ^ k"
    using bn_of_nat_shape [of n] by auto
  have abs: "nat \<bar>int c * 10 ^ k + 1\<bar> = n + 1"
    using s(3) by (simp add: nat_add_distrib nat_mult_distrib nat_power_eq)
  have "bn_plus (bn_of_nat n) (bn_of_nat 1) =
      bn_plus (BN_Finite False c (int k)) (BN_Finite False 1 0)"
    by (simp only: s(1) bn_of_nat_1)
  also have "\<dots> = normalise False (n + 1) 0"
  proof -
    have "0 \<le> int c * 10 ^ k"
      by simp
    then have "\<not> int c * 10 ^ k + 1 < 0"
      by linarith
    then show ?thesis
      using s(2) abs by (simp add: bn_of_scaled_def signed_coeff_def)
  qed
  also have "\<dots> = bn_of_nat (n + 1)"
    by (simp only: bn_of_nat_def)
  finally show ?thesis .
qed

lemma nat_of_digits_snoc: "nat_of_digits (ds @ [c]) = 10 * nat_of_digits ds + digit_val c"
  by (simp add: nat_of_digits_def)

lemma nat_of_digits_single: "nat_of_digits [c] = digit_val c"
  by (simp add: nat_of_digits_def)

lemma nat_of_digits_of_nat: "nat_of_digits (digits_of_nat n) = n"
proof (induction n rule: digits_of_nat.induct)
  case (1 n)
  show ?case
  proof (cases "n < 10")
    case True
    then show ?thesis
      by (simp add: digits_of_nat.simps [of n] nat_of_digits_single digit_val_digit_char)
  next
    case False
    then show ?thesis
      using "1.IH" by (simp add: digits_of_nat.simps [of n] nat_of_digits_snoc digit_val_digit_char)
  qed
qed

lemma digits_all_digit: "list_all is_digit (digits_of_nat n)"
proof (induction n rule: digits_of_nat.induct)
  case (1 n)
  show ?case
  proof (cases "n < 10")
    case True
    then show ?thesis
      by (simp add: digits_of_nat.simps [of n] is_digit_digit_char)
  next
    case False
    then show ?thesis
      using "1.IH" by (simp add: digits_of_nat.simps [of n] is_digit_digit_char)
  qed
qed

lemma digits_nonempty: "digits_of_nat n \<noteq> []"
  using digits_length_pos [of n] by simp

lemma is_digit_not_minus: "is_digit c \<Longrightarrow> c \<noteq> CHR ''-''"
  by (auto simp: is_digit_def)

lemma takeWhile_all: "list_all P xs \<Longrightarrow> takeWhile P xs = xs"
  by (induction xs) auto

lemma dropWhile_all: "list_all P xs \<Longrightarrow> dropWhile P xs = []"
  by (induction xs) auto

lemma parse_numeric_digits: "parse_numeric (digits_of_nat n) = Some (False, n, 0)"
proof -
  have d: "list_all is_digit (digits_of_nat n)" by (rule digits_all_digit)
  have ne: "digits_of_nat n \<noteq> []" by (rule digits_nonempty)
  then have "is_digit (hd (digits_of_nat n))"
    using d by (cases "digits_of_nat n") auto
  then have h: "hd (digits_of_nat n) \<noteq> CHR ''-''"
    by (rule is_digit_not_minus)
  have a: "\<forall>x\<in>set (digits_of_nat n). is_digit x"
    using d by (simp add: list_all_iff)
  show ?thesis
    using ne h a by (simp add: parse_numeric_def takeWhile_all [OF d] dropWhile_all [OF d]
        parse_exponent_def nat_of_digits_of_nat Let_def)
qed

lemma BigNumber_new_digits: "BigNumber_new env (digits_of_nat n) = Inr (bn_of_nat n)"
  by (simp add: BigNumber_new_def parse_numeric_digits bn_of_nat_def)

section \<open>Evaluation on concrete inputs\<close>

lemmas numeral_eval = digits_of_nat.simps strip_zeros.simps normalise_def MAX_EXP_def MIN_EXP_def
  parse_numeric_def parse_exponent_def is_digit_def digit_val_def digit_char_def nat_of_digits_def
  bn_of_nat_def Let_def BigNumber_new_def toFixedPoint_def toExponential_def TO_EXP_NEG_def
  TO_EXP_POS_def show_int_def

lemmas strkey_eval = base32_decode_def base32_alphabet_def base32_index_def StrKey_decodeCheck_def
  calculateChecksum_def crc16xmodem_def crc16_byte_def crc16_shift_def
  versionByte_ed25519PublicKey_def StrKey_isValid_def StrKey_encodeCheck_def base32_encode_def

lemma reference_env_simps:
  "isValidEd25519PublicKey reference_env = StrKey_isValid versionByte_ed25519PublicKey"
  "decodeEd25519PublicKey reference_env = StrKey_decodeCheck versionByte_ed25519PublicKey"
  "encodeEd25519PublicKey reference_env = StrKey_encodeCheck versionByte_ed25519PublicKey"
  "fromPublicKey reference_env = StrKey_decodeCheck versionByte_ed25519PublicKey"
  "AccountType_has reference_env = (\<lambda>v. v = JNum (NumFin 0))"
  "SignerType_has reference_env = (\<lambda>v. v = JNum (NumFin 0))"
  "Buffer_from_hex reference_env = hex_decode"
  "parseInt reference_env = reference_parseInt"
  "parseNumeric reference_env = (\<lambda>s. Inl (Error (''new BigNumber() not a number: '' @ s)))"
  by (simp_all add: reference_env_def)

lemma test_address_decodes:
  "StrKey_decodeCheck versionByte_ed25519PublicKey (JStr test_address) = Inr test_address_key"
  unfolding test_address_def test_address_key_def by (simp add: strkey_eval)


lemma test_address_isValid: "StrKey_isValid versionByte_ed25519PublicKey (JStr test_address)"
  by (simp add: StrKey_isValid_def test_address_decodes)

lemma test_address_valid: "isValidEd25519PublicKey reference_env (JStr test_address)"
  by (simp add: reference_env_simps StrKey_isValid_def test_address_decodes)

lemma reference_parseInt_100: "reference_parseInt (JStr ''100'') = NumFin 100"
  by (simp add: reference_parseInt_def is_digit_def nat_of_digits_def digit_val_def to_double_def
      bitlen.simps div_half_even_def pow2_def Let_def)

section \<open>Values of the number type\<close>

lemma bn_val_of_nat: "n < 10 ^ 21 \<Longrightarrow> bn_val (bn_of_nat n) = of_nat n"
proof (cases "n = 0")
  case True
  then show ?thesis by (simp add: bn_of_nat_0)
next
  case False
  assume "n < 10 ^ 21"
  with False obtain c k where "bn_of_nat n = BN_Finite False c (int k)" "n = c * 10 ^ k"
    using bn_of_nat_shape [of n] by auto
  then show ?thesis by (simp add: pow10_def)
qed

section \<open>Account: the sequence counter\<close>

lemma sequence_increment:
  "sequence (incrementSequenceNumber b) = bn_plus (sequence b) (bn_of_nat 1)"
  by (simp add: incrementSequenceNumber_def)

lemma sequence_funpow:
  "sequence a = bn_of_nat N \<Longrightarrow> N + k < 10 ^ 21 \<Longrightarrow>
     sequence ((incrementSequenceNumber ^^ k) a) = bn_of_nat (N + k)"
proof (induction k)
  case 0
  then show ?case by simp
next
  case (Suc k)
  then have "sequence ((incrementSequenceNumber ^^ k) a) = bn_of_nat (N + k)"
    by simp
  moreover have "N + k < 10 ^ 21"
    using Suc.prems by simp
  ultimately have "bn_plus (sequence ((incrementSequenceNumber ^^ k) a)) (bn_of_nat 1) =
      bn_of_nat (N + k + 1)"
    by (simp only: bn_plus_one)
  then show ?case
    by (simp only: funpow.simps o_apply sequence_increment) simp
qed

text \<open>
  C5 (as amended). An account whose sequence is the non-negative integer \<open>N\<close> holds,
  after \<open>k\<close> calls of \<open>incrementSequenceNumber\<close>, the integer \<open>N + k\<close>: the stored
  value denotes \<open>N + k\<close> (so every call adds exactly one, and the counter neither
  decreases nor turns negative), and \<open>sequenceNumber\<close> returns the decimal numeral of
  \<open>N + k\<close>, as long as \<open>N + k\<close> is below \<open>10 ^ 21\<close>, which covers the unsigned 64-bit
  range of the data model.
\<close>

theorem incrementSequenceNumber_adds_k:
  assumes "sequence a = bn_of_nat N" and "N + k < 10 ^ 21"
  shows "bn_val (sequence ((incrementSequenceNumber ^^ k) a)) = of_nat N + of_nat k
    \<and> \<not> bn_isNegative (sequence ((incrementSequenceNumber ^^ k) a))
    \<and> sequenceNumber ((incrementSequenceNumber ^^ k) a) = digits_of_nat (N + k)"
proof -
  have s: "sequence ((incrementSequenceNumber ^^ k) a) = bn_of_nat (N + k)"
    using assms by (rule sequence_funpow)
  have "\<not> bn_isNegative (bn_of_nat (N + k))"
  proof (cases "N + k = 0")
    case True
    then show ?thesis by (simp add: bn_of_nat_0)
  next
    case False
    then obtain c j where "bn_of_nat (N + k) = BN_Finite False c (int j)"
      using bn_of_nat_shape [of "N + k"] assms(2) by auto
    then show ?thesis by simp
  qed
  then show ?thesis
    using assms(2) by (simp add: s sequenceNumber_def bn_val_of_nat bn_toString_of_nat)
qed

text \<open>
  C5, as stated, fails on an account built from the sequence \<^verbatim>\<open>"NaN"\<close>, which the
  constructor accepts: the counter prints \<^verbatim>\<open>NaN\<close> before and after a call.
\<close>

theorem incrementSequenceNumber_NaN_counterexample:
  "Account_new reference_env (JStr test_address) (JStr ''NaN'') (JStr ''100'')
     = Inr \<lparr>accountId_field = JStr test_address, sequence = BN_NaN, baseFee_field = NumFin 100\<rparr>
   \<and> sequenceNumber \<lparr>accountId_field = JStr test_address, sequence = BN_NaN,
        baseFee_field = NumFin 100\<rparr> = ''NaN''
   \<and> sequenceNumber (incrementSequenceNumber \<lparr>accountId_field = JStr test_address,
        sequence = BN_NaN, baseFee_field = NumFin 100\<rparr>) = ''NaN''"
  by (simp add: Account_new_def test_address_isValid reference_parseInt_100 sequenceNumber_def
      incrementSequenceNumber_def numeral_eval reference_env_simps)

theorem incrementSequenceNumber_adds_k_witness:
  "sequence \<lparr>accountId_field = JStr test_address, sequence = BN_Finite False 41 0,
      baseFee_field = NumFin 100\<rparr> = bn_of_nat 41
   \<and> (41::nat) + 2 < 10 ^ 21
   \<and> sequenceNumber ((incrementSequenceNumber ^^ 2) \<lparr>accountId_field = JStr test_address,
        sequence = BN_Finite False 41 0, baseFee_field = NumFin 100\<rparr>) = ''43''"
  using incrementSequenceNumber_adds_k [of "\<lparr>accountId_field = JStr test_address,
      sequence = BN_Finite False 41 0, baseFee_field = NumFin 100\<rparr>" 41 2]
  by (simp add: numeral_eval)

text \<open>
  C10. \<open>incrementSequenceNumber\<close> writes the sequence field only: whatever the account and
  however many calls, \<open>accountId\<close> and \<open>baseFeeValue\<close> return what they returned before.
\<close>

theorem incrementSequenceNumber_frame:
  "accountId ((incrementSequenceNumber ^^ k) a) = accountId a
    \<and> baseFeeValue env ((incrementSequenceNumber ^^ k) a) = baseFeeValue env a"
  by (induction k) (simp_all add: incrementSequenceNumber_def accountId_def baseFeeValue_def)

section \<open>Account: construction\<close>

lemma Account_new_Inr:
  "Account_new env a s f = Inr acc \<longleftrightarrow>
     isValidEd25519PublicKey env a \<and>
     (\<exists>str b. s = JStr str \<and> BigNumber_new env str = Inr b \<and>
        acc = \<lparr>accountId_field = a, sequence = b, baseFee_field = parseInt env f\<rparr>)"
  by (cases s) (auto simp: Account_new_def split: sum.splits)

text \<open>
  C6 (as amended). The constructor fails exactly when the account id is not valid, or the
  sequence is not a string, or it is a string that the bignumber.js constructor rejects.
  On success \<open>accountId\<close> returns the given id and \<open>sequenceNumber\<close> returns the
  printed form of the number read from the sequence; for the decimal numeral of an
  integer below \<open>10 ^ 21\<close> that is the given string.
\<close>

theorem Account_new_spec:
  "(isl (Account_new env a s f) \<longleftrightarrow>
      \<not> isValidEd25519PublicKey env a \<or> \<not> isString s
        \<or> (\<exists>str. s = JStr str \<and> isl (BigNumber_new env str)))
   \<and> (\<forall>acc. Account_new env a s f = Inr acc \<longrightarrow>
        accountId acc = a
        \<and> (\<exists>str b. s = JStr str \<and> BigNumber_new env str = Inr b
              \<and> sequenceNumber acc = bn_toString b))
   \<and> (isValidEd25519PublicKey env a \<and> n < 10 ^ 21 \<longrightarrow>
        (\<exists>acc. Account_new env a (JStr (digits_of_nat n)) f = Inr acc
           \<and> accountId acc = a \<and> sequenceNumber acc = digits_of_nat n))"
proof (intro conjI allI impI)
  show "isl (Account_new env a s f) \<longleftrightarrow>
      \<not> isValidEd25519PublicKey env a \<or> \<not> isString s
        \<or> (\<exists>str. s = JStr str \<and> isl (BigNumber_new env str))"
    by (cases s) (auto simp: Account_new_def split: sum.splits)
next
  fix acc
  assume "Account_new env a s f = Inr acc"
  then obtain str b where "s = JStr str" "BigNumber_new env str = Inr b"
    "acc = \<lparr>accountId_field = a, sequence = b, baseFee_field = parseInt env f\<rparr>"
    by (auto simp: Account_new_Inr)
  then show "accountId acc = a" 
    and "\<exists>str b. s = JStr str \<and> BigNumber_new env str = Inr b \<and> sequenceNumber acc = bn_toString b"
    by (simp_all add: accountId_def sequenceNumber_def)
next
  assume "isValidEd25519PublicKey env a \<and> n < 10 ^ 21"
  then show "\<exists>acc. Account_new env a (JStr (digits_of_nat n)) f = Inr acc
           \<and> accountId acc = a \<and> sequenceNumber acc = digits_of_nat n"
    by (simp add: Account_new_def BigNumber_new_digits accountId_def sequenceNumber_def
        bn_toString_of_nat)
qed

theorem Account_new_spec_witness:
  "isValidEd25519PublicKey reference_env (JStr test_address) \<and> (42::nat) < 10 ^ 21
   \<and> (\<exists>acc. Account_new reference_env (JStr test_address) (JStr ''42'') (JStr ''100'') = Inr acc
         \<and> accountId acc = JStr test_address \<and> sequenceNumber acc = ''42'')"
proof -
  have d: "digits_of_nat 42 = ''42''"
    by (simp add: numeral_eval)
  show ?thesis
    using Account_new_spec [of reference_env "JStr test_address" "JStr ''42''" "JStr ''100''" 42]
    by (simp only: d test_address_valid) simp
qed

text \<open>
  C6, as stated, fails: the sequence \<^verbatim>\<open>"1.5"\<close> is not the numeral of an integer, yet the
  account is built; and from \<^verbatim>\<open>"007"\<close> the account is built with
  \<open>sequenceNumber\<close> \<^verbatim>\<open>"7"\<close>, not the string given.
\<close>

theorem Account_new_fraction_counterexample:
  "Account_new reference_env (JStr test_address) (JStr ''1.5'') (JStr ''100'')
     = Inr \<lparr>accountId_field = JStr test_address, sequence = BN_Finite False 15 (- 1),
            baseFee_field = NumFin 100\<rparr>
   \<and> sequenceNumber \<lparr>accountId_field = JStr test_address, sequence = BN_Finite False 15 (- 1),
        baseFee_field = NumFin 100\<rparr> = ''1.5''
   \<and> Account_new reference_env (JStr test_address) (JStr ''007'') (JStr ''100'')
     = Inr \<lparr>accountId_field = JStr test_address, sequence = BN_Finite False 7 0,
            baseFee_field = NumFin 100\<rparr>
   \<and> sequenceNumber \<lparr>accountId_field = JStr test_address, sequence = BN_Finite False 7 0,
        baseFee_field = NumFin 100\<rparr> = ''7''"
  by (simp add: Account_new_def test_address_isValid reference_parseInt_100 sequenceNumber_def
      numeral_eval reference_env_simps)

section \<open>The unsigned-integer check\<close>

lemmas float_eval = bitlen.simps to_double_def div_half_even_def pow2_def parseFloat_def
  exponent_prefix_def is_space_def is_digit_def digit_val_def nat_of_digits_def Let_def

lemma mod1_eq_0_iff: "mod1 q = 0 \<longleftrightarrow> q \<in> \<int>"
proof
  assume "mod1 q = 0"
  then have "q = of_int (if 0 \<le> q then \<lfloor>q\<rfloor> else \<lceil>q\<rceil>)"
    by (simp add: mod1_def)
  then show "q \<in> \<int>"
    by (metis Ints_of_int)
next
  assume "q \<in> \<int>"
  then show "mod1 q = 0"
    by (auto simp: mod1_def elim!: Ints_cases)
qed

lemma checkUnsignedIntValue_string:
  "Operation_checkUnsignedIntValue nm (JStr s) f =
     Operation_checkUnsignedIntValue nm (JNum (parseFloat s)) f"
  by (simp add: Operation_checkUnsignedIntValue_def)

lemma checkUnsignedIntValue_nat:
  "Operation_checkUnsignedIntValue nm (JNum (NumFin (of_nat n))) None = Inr (JNum (NumFin (of_nat n)))"
  by (simp add: Operation_checkUnsignedIntValue_def mod1_eq_0_iff)

lemma checkUnsignedIntValue_weight:
  "Operation_checkUnsignedIntValue nm (JNum (NumFin (of_nat n))) (Some weightCheckFunction) =
     (if n \<le> 255 then Inr (JNum (NumFin (of_nat n)))
      else Inl (Error (nm @ '' value must be between 0 and 255'')))"
proof -
  have "(rat_of_nat n \<le> 255) = (n \<le> 255)"
    by (metis of_nat_le_iff of_nat_numeral)
  then show ?thesis
    by (simp add: Operation_checkUnsignedIntValue_def mod1_eq_0_iff weightCheckFunction_def
        bind_err_def)
qed

lemma checkUnsignedIntValue_rejects:
  "q < 0 \<or> q \<notin> \<int> \<Longrightarrow> isl (Operation_checkUnsignedIntValue nm (JNum (NumFin q)) f)"
  by (auto simp: Operation_checkUnsignedIntValue_def mod1_eq_0_iff)

lemma checkUnsignedIntValue_Inr:
  "Operation_checkUnsignedIntValue nm v f = Inr r \<Longrightarrow>
     r = JUndefined \<and> v = JUndefined
     \<or> (\<exists>n. r = JNum (NumFin (of_nat n))
          \<and> (v = r \<or> (\<exists>s. v = JStr s \<and> parseFloat s = NumFin (of_nat n))))"
proof (cases "isUndefined v")
  case True
  assume "Operation_checkUnsignedIntValue nm v f = Inr r"
  with True show ?thesis
    by (cases v) (auto simp: Operation_checkUnsignedIntValue_def)
next
  case False
  assume r: "Operation_checkUnsignedIntValue nm v f = Inr r"
  define w where "w = (case v of JStr s \<Rightarrow> JNum (parseFloat s) | _ \<Rightarrow> v)"
  from r False obtain q where q: "w = JNum (NumFin q)" "mod1 q = 0" "\<not> q < 0" "r = JNum (NumFin q)"
    by (auto simp: Operation_checkUnsignedIntValue_def w_def bind_err_def
        split: jsval.splits jsnum.splits if_splits option.splits sum.splits)
  then have "q \<in> \<int>" by (simp add: mod1_eq_0_iff)
  then obtain i where "q = of_int i" by (auto elim: Ints_cases)
  with q(3) have "q = of_nat (nat i)" by simp
  with q show ?thesis
    by (cases v) (auto simp: w_def)
qed

lemma parseFloat_4x: "parseFloat ''4x'' = NumFin 4"
  by (simp add: float_eval)

lemma parseFloat_4: "parseFloat ''4'' = NumFin 4"
  by (simp add: float_eval)

lemma takeWhile_prefix:
  "list_all P xs \<Longrightarrow> t = [] \<or> \<not> P (hd t) \<Longrightarrow> takeWhile P (xs @ t) = xs"
  by (induction xs) (auto simp: takeWhile_eq_Nil_iff)

lemma dropWhile_prefix:
  "list_all P xs \<Longrightarrow> t = [] \<or> \<not> P (hd t) \<Longrightarrow> dropWhile P (xs @ t) = t"
  by (induction xs) (auto simp: dropWhile_eq_self_iff)

lemma parseFloat_digit_prefix:
  assumes "ds \<noteq> []" "list_all is_digit ds"
    and "t = [] \<or> \<not> is_digit (hd t) \<and> hd t \<notin> set ''.eE''"
  shows "parseFloat (ds @ t) = to_double (nat_of_digits ds) 1"
proof -
  obtain d ds' where ds: "ds = d # ds'" "is_digit d"
    using assms(1,2) by (cases ds) auto
  have d: "\<not> is_space d" "d \<noteq> CHR ''-''" "d \<noteq> CHR ''+''" "d \<noteq> CHR ''I''"
    using ds(2) by (auto simp: is_digit_def is_space_def)
  have t: "t = [] \<or> \<not> is_digit (hd t)"
    using assms(3) by auto
  have tw: "takeWhile is_digit (ds @ t) = ds" "dropWhile is_digit (ds @ t) = t"
    using assms(2) t by (simp_all add: takeWhile_prefix dropWhile_prefix)
  have ex: "exponent_prefix t = 0"
    using assms(3) by (cases t) (auto simp: exponent_prefix_def)
  have sp: "dropWhile is_space (ds @ t) = ds @ t"
    using ds d by simp
  have inf: "take 8 (ds @ t) \<noteq> ''Infinity''"
    using ds d by (simp add: take_Cons')
  have hd: "hd (ds @ t) = d" "ds @ t \<noteq> []"
    using ds by simp_all
  show ?thesis
  proof (cases t)
    case Nil
    then show ?thesis
      unfolding parseFloat_def sp Let_def
      using inf ex d hd assms(1)
      by (simp add: takeWhile_all [OF assms(2)] dropWhile_all [OF assms(2)])
  next
    case (Cons c t')
    then have "c \<noteq> CHR ''.''"
      using assms(3) by auto
    then show ?thesis
      unfolding parseFloat_def sp Let_def
      using inf ex d hd assms(1) tw Cons by simp
  qed
qed

lemma checkUnsignedIntValue_undefined:
  "Operation_checkUnsignedIntValue nm JUndefined f = Inr JUndefined"
  by (simp add: Operation_checkUnsignedIntValue_def)

lemma checkUnsignedIntValue_4:
  "Operation_checkUnsignedIntValue nm (JNum (NumFin 4)) None = Inr (JNum (NumFin 4))"
  using checkUnsignedIntValue_nat [of nm 4] by simp

lemma setOptions_setFlags_4:
  "fst (Operation_setOptions env (empty_opts\<lparr>setFlags := JStr ''4''\<rparr>)) =
     Inr \<lparr>sourceAccount = None,
          body = Body_setOption
            \<lparr>op_inflationDest = None, op_clearFlags = JUndefined, op_setFlags = JNum (NumFin 4),
             op_masterWeight = JUndefined, op_lowThreshold = JUndefined,
             op_medThreshold = JUndefined, op_highThreshold = JUndefined,
             op_homeDomain = JUndefined, op_signer = None\<rparr>\<rparr>"
  by (simp add: Operation_setOptions_def setOptions_attributes_def empty_opts_def bind_err_def
      Operation_setSourceAccount_def checkUnsignedIntValue_undefined checkUnsignedIntValue_string
      parseFloat_4 checkUnsignedIntValue_4)

text \<open>
  C8. \<^verbatim>\<open>_checkUnsignedIntValue\<close> returns \<^verbatim>\<open>undefined\<close> for \<^verbatim>\<open>undefined\<close>; returns a
  non-negative integer given as a number; treats a string as the number \<^verbatim>\<open>parseFloat\<close>
  reads from it; throws for a negative or fractional number, for NaN and for the
  infinities. Since \<^verbatim>\<open>parseFloat\<close> reads a prefix, digits followed by other characters are
  accepted as the digits alone: \<^verbatim>\<open>"4x"\<close> gives 4. And \<^verbatim>\<open>setOptions({setFlags: "4"})\<close>
  decodes to the number 4.
\<close>

theorem checkUnsignedIntValue_spec:
  "Operation_checkUnsignedIntValue nm JUndefined f = Inr JUndefined
   \<and> Operation_checkUnsignedIntValue nm (JNum (NumFin (of_nat n))) None
       = Inr (JNum (NumFin (of_nat n)))
   \<and> Operation_checkUnsignedIntValue nm (JStr s) f
       = Operation_checkUnsignedIntValue nm (JNum (parseFloat s)) f
   \<and> (q < 0 \<or> q \<notin> \<int> \<longrightarrow> isl (Operation_checkUnsignedIntValue nm (JNum (NumFin q)) f))
   \<and> isl (Operation_checkUnsignedIntValue nm (JNum NumNaN) f)
   \<and> isl (Operation_checkUnsignedIntValue nm (JNum (NumInf neg)) f)
   \<and> (ds \<noteq> [] \<and> list_all is_digit ds \<and> (t = [] \<or> \<not> is_digit (hd t) \<and> hd t \<notin> set ''.eE'')
        \<longrightarrow> Operation_checkUnsignedIntValue nm (JStr (ds @ t)) f
            = Operation_checkUnsignedIntValue nm (JStr ds) f)
   \<and> Operation_checkUnsignedIntValue nm (JStr ''4x'') None = Inr (JNum (NumFin 4))
   \<and> (\<exists>op obj. fst (Operation_setOptions env (empty_opts\<lparr>setFlags := JStr ''4''\<rparr>)) = Inr op
         \<and> Operation_fromXDRObject env op = Inr obj
         \<and> get_prop obj ''setFlags'' = JNum (NumFin 4))"
proof (intro conjI impI)
  show "Operation_checkUnsignedIntValue nm JUndefined f = Inr JUndefined"
    by (rule checkUnsignedIntValue_undefined)
  show "Operation_checkUnsignedIntValue nm (JNum (NumFin (of_nat n))) None
       = Inr (JNum (NumFin (of_nat n)))"
    by (rule checkUnsignedIntValue_nat)
  show "Operation_checkUnsignedIntValue nm (JStr s) f
       = Operation_checkUnsignedIntValue nm (JNum (parseFloat s)) f"
    by (rule checkUnsignedIntValue_string)
  show "isl (Operation_checkUnsignedIntValue nm (JNum (NumFin q)) f)" if "q < 0 \<or> q \<notin> \<int>"
    using that by (rule checkUnsignedIntValue_rejects)
  show "isl (Operation_checkUnsignedIntValue nm (JNum NumNaN) f)"
    by (simp add: Operation_checkUnsignedIntValue_def)
  show "isl (Operation_checkUnsignedIntValue nm (JNum (NumInf neg)) f)"
    by (simp add: Operation_checkUnsignedIntValue_def)
  show "Operation_checkUnsignedIntValue nm (JStr (ds @ t)) f
            = Operation_checkUnsignedIntValue nm (JStr ds) f"
    if "ds \<noteq> [] \<and> list_all is_digit ds \<and> (t = [] \<or> \<not> is_digit (hd t) \<and> hd t \<notin> set ''.eE'')"
  proof -
    have "parseFloat (ds @ t) = to_double (nat_of_digits ds) 1"
      using that by (intro parseFloat_digit_prefix) auto
    moreover have "parseFloat (ds @ []) = to_double (nat_of_digits ds) 1"
      using that by (intro parseFloat_digit_prefix) auto
    ultimately show ?thesis
      by (simp add: checkUnsignedIntValue_string)
  qed
  show "Operation_checkUnsignedIntValue nm (JStr ''4x'') None = Inr (JNum (NumFin 4))"
    by (simp add: checkUnsignedIntValue_string parseFloat_4x checkUnsignedIntValue_4)
  show "\<exists>op obj. fst (Operation_setOptions env (empty_opts\<lparr>setFlags := JStr ''4''\<rparr>)) = Inr op
         \<and> Operation_fromXDRObject env op = Inr obj
         \<and> get_prop obj ''setFlags'' = JNum (NumFin 4)"
    by (simp add: setOptions_setFlags_4 Operation_fromXDRObject_def fromXDR_body_def bind_err_def
        get_prop_def source_property_def setOption_properties_def)
qed

theorem checkUnsignedIntValue_spec_witness:
  "(- 1 :: rat) < 0
   \<and> isl (Operation_checkUnsignedIntValue ''setFlags'' (JNum (NumFin (- 1))) None)
   \<and> ''12'' \<noteq> [] \<and> list_all is_digit ''12'' \<and> \<not> is_digit (hd ''px'') \<and> hd ''px'' \<notin> set ''.eE''
   \<and> Operation_checkUnsignedIntValue ''setFlags'' (JStr (''12'' @ ''px'')) None
       = Operation_checkUnsignedIntValue ''setFlags'' (JStr ''12'') None
   \<and> Operation_checkUnsignedIntValue ''setFlags'' (JStr ''12'') None = Inr (JNum (NumFin 12))"
proof -
  have d: "list_all is_digit ''12''" "\<not> is_digit (hd ''px'')"
    by (simp_all add: is_digit_def)
  have p: "parseFloat ''12'' = NumFin 12"
    by (simp add: float_eval)
  have "Operation_checkUnsignedIntValue ''setFlags'' (JNum (NumFin 12)) None = Inr (JNum (NumFin 12))"
    using checkUnsignedIntValue_nat [of "''setFlags''" 12] by simp
  then show ?thesis
    using checkUnsignedIntValue_spec [of "''setFlags''" None 4 "''12''" "- 1" False "''12''" "''px''"
        reference_env] d
    by (simp add: p)
qed

section \<open>\<^verbatim>\<open>setOptions\<close>: the signer sub-object\<close>

lemma signer_ed25519_ok:
  "fst (signer_ed25519 env st) = None \<Longrightarrow>
     st_signer (snd (signer_ed25519 env st)) = st_signer st
     \<and> st_setValues (snd (signer_ed25519 env st))
         = st_setValues st + (if truthy (ed25519PublicKey (st_signer st)) then 1 else 0)"
  by (auto simp: signer_ed25519_def split: if_splits sum.splits)

lemma signer_preAuthTx_ok:
  "fst (signer_preAuthTx env st) = None \<Longrightarrow>
     sha256Hash (st_signer (snd (signer_preAuthTx env st))) = sha256Hash (st_signer st)
     \<and> st_setValues (snd (signer_preAuthTx env st))
         = st_setValues st + (if truthy (preAuthTx (st_signer st)) then 1 else 0)"
  by (auto simp: signer_preAuthTx_def split: if_splits sum.splits)

lemma signer_sha256Hash_ok:
  "fst (signer_sha256Hash env st) = None \<Longrightarrow>
     st_setValues (snd (signer_sha256Hash env st))
         = st_setValues st + (if truthy (sha256Hash (st_signer st)) then 1 else 0)"
  by (auto simp: signer_sha256Hash_def split: if_splits sum.splits)

lemma then_step_None:
  "fst (then_step r f) = None \<longleftrightarrow> fst r = None \<and> fst (f (snd r)) = None"
  by (cases "fst r") (auto simp: then_step_def)

lemma then_step_snd: "fst r = None \<Longrightarrow> snd (then_step r f) = snd (f (snd r))"
  by (simp add: then_step_def)

lemma signer_keys_count:
  assumes "fst (signer_keys env sg) = None"
  shows "st_setValues (snd (signer_keys env sg)) = key_fields_set sg"
proof -
  define st0 where "st0 = \<lparr>st_signer = sg, st_key = None, st_setValues = 0\<rparr>"
  define r1 where "r1 = signer_ed25519 env st0"
  define r2 where "r2 = signer_preAuthTx env (snd r1)"
  define r3 where "r3 = signer_sha256Hash env (snd r2)"
  have keys: "signer_keys env sg = then_step (then_step r1 (signer_preAuthTx env)) (signer_sha256Hash env)"
    by (simp add: signer_keys_def r1_def st0_def)
  from assms have 12: "fst r1 = None" "fst r2 = None"
    by (simp_all add: keys then_step_None r2_def)
  then have s12: "snd (then_step r1 (signer_preAuthTx env)) = snd r2"
    by (simp add: then_step_snd r2_def)
  from assms have "fst r3 = None"
    by (simp add: keys then_step_None s12 r3_def)
  note ok = 12 this
  have k: "snd (signer_keys env sg) = snd r3"
    using ok by (simp add: keys then_step_snd then_step_None s12 r2_def r3_def)
  from signer_ed25519_ok [OF ok(1) [unfolded r1_def]]
  have 1: "st_signer (snd r1) = sg"
    "st_setValues (snd r1) = (if truthy (ed25519PublicKey sg) then 1 else 0)"
    by (simp_all add: r1_def st0_def)
  from signer_preAuthTx_ok [OF ok(2) [unfolded r2_def]]
  have 2: "sha256Hash (st_signer (snd r2)) = sha256Hash sg"
    "st_setValues (snd r2) = st_setValues (snd r1) + (if truthy (preAuthTx sg) then 1 else 0)"
    by (simp_all add: r2_def 1)
  from signer_sha256Hash_ok [OF ok(3) [unfolded r3_def]]
  have 3: "st_setValues (snd r3) = st_setValues (snd r2) + (if truthy (sha256Hash sg) then 1 else 0)"
    by (simp add: r3_def 2)
  show ?thesis
    by (simp add: k 1 2 3 key_fields_set_def)
qed

lemma setOptions_signer_Inr:
  assumes "fst (setOptions_signer env sg) = Inr s"
  shows "key_fields_set sg = 1 \<and> \<not> isUndefined (signerType sg) \<and> SignerType_has env (signerType sg)
    \<and> (\<exists>w. Operation_checkUnsignedIntValue ''signer.weight'' (weight sg) (Some weightCheckFunction) = Inr w)"
proof -
  from assms obtain w where w:
    "Operation_checkUnsignedIntValue ''signer.weight'' (weight sg) (Some weightCheckFunction) = Inr w"
    by (auto simp: setOptions_signer_def split: sum.splits)
  with assms have t: "\<not> isUndefined (signerType sg)" "SignerType_has env (signerType sg)"
    by (auto simp: setOptions_signer_def Operation_isValidSignerType_def split: if_splits)
  with assms w have "fst (signer_keys env sg) = None" "st_setValues (snd (signer_keys env sg)) = 1"
    by (auto simp: setOptions_signer_def Operation_isValidSignerType_def Let_def
        split: if_splits option.splits)
  then show ?thesis
    using w t by (simp add: signer_keys_count)
qed

lemma setOptions_signer_count:
  "key_fields_set sg \<noteq> 1 \<Longrightarrow> isl (fst (setOptions_signer env sg))"
  using setOptions_signer_Inr [of env sg] by (cases "fst (setOptions_signer env sg)") auto

lemma setOptions_Inr_signer:
  assumes "signer opts = Some sg" "fst (Operation_setOptions env opts) = Inr op"
  shows "\<exists>s. fst (setOptions_signer env sg) = Inr s"
  using assms
  by (auto simp: Operation_setOptions_def bind_err_def split: sum.splits)

lemma checkUnsignedIntValue_weight_Inr:
  assumes "Operation_checkUnsignedIntValue nm v (Some weightCheckFunction) = Inr w"
  shows "v = JUndefined
    \<or> (\<exists>n\<le>255. v = JNum (NumFin (of_nat n)) \<or> (\<exists>s. v = JStr s \<and> parseFloat s = NumFin (of_nat n)))"
proof -
  from checkUnsignedIntValue_Inr [OF assms]
  consider "v = JUndefined"
    | n where "w = JNum (NumFin (of_nat n))" "v = w"
    | n s where "w = JNum (NumFin (of_nat n))" "v = JStr s" "parseFloat s = NumFin (of_nat n)"
    by blast
  then show ?thesis
  proof cases
    case 1
    then show ?thesis by simp
  next
    case 2
    with assms have "n \<le> 255"
      by (simp add: checkUnsignedIntValue_weight split: if_splits)
    with 2 show ?thesis by blast
  next
    case 3
    with assms have "n \<le> 255"
      by (simp add: checkUnsignedIntValue_string checkUnsignedIntValue_weight split: if_splits)
    with 3 show ?thesis by blast
  qed
qed

text \<open>
  C3 (as amended). For an options object with a signer sub-object, \<^verbatim>\<open>setOptions\<close> succeeds
  only when exactly one of \<^verbatim>\<open>ed25519PublicKey\<close>, \<^verbatim>\<open>sha256Hash\<close>, \<^verbatim>\<open>preAuthTx\<close> is
  set, the weight is absent or denotes an integer from 0 to 255 (as a number or a numeric
  string), and \<^verbatim>\<open>signerType\<close> is a recognised value; it fails whenever two or more of the
  three key fields are set, and when none is.
\<close>

theorem setOptions_signer_spec:
  assumes "signer opts = Some sg"
  shows "(fst (Operation_setOptions env opts) = Inr op \<longrightarrow>
            key_fields_set sg = 1
            \<and> (weight sg = JUndefined
                \<or> (\<exists>n\<le>255. weight sg = JNum (NumFin (of_nat n))
                      \<or> (\<exists>s. weight sg = JStr s \<and> parseFloat s = NumFin (of_nat n))))
            \<and> signerType sg \<noteq> JUndefined \<and> SignerType_has env (signerType sg))
         \<and> (key_fields_set sg \<noteq> 1 \<longrightarrow> isl (fst (Operation_setOptions env opts)))"
proof (intro conjI impI)
  assume "fst (Operation_setOptions env opts) = Inr op"
  with assms obtain s where "fst (setOptions_signer env sg) = Inr s"
    using setOptions_Inr_signer by blast
  from setOptions_signer_Inr [OF this]
  obtain w where k: "key_fields_set sg = 1" "\<not> isUndefined (signerType sg)"
    "SignerType_has env (signerType sg)"
    "Operation_checkUnsignedIntValue ''signer.weight'' (weight sg) (Some weightCheckFunction) = Inr w"
    by blast
  show "key_fields_set sg = 1" "SignerType_has env (signerType sg)"
    by (rule k)+
  show "signerType sg \<noteq> JUndefined"
    using k(2) by auto
  show "weight sg = JUndefined
      \<or> (\<exists>n\<le>255. weight sg = JNum (NumFin (of_nat n))
            \<or> (\<exists>s. weight sg = JStr s \<and> parseFloat s = NumFin (of_nat n)))"
    using k(4) by (rule checkUnsignedIntValue_weight_Inr)
next
  assume "key_fields_set sg \<noteq> 1"
  then have "isl (fst (setOptions_signer env sg))"
    by (rule setOptions_signer_count)
  then show "isl (fst (Operation_setOptions env opts))"
    using assms
    by (cases "fst (setOptions_signer env sg)")
      (auto simp: Operation_setOptions_def bind_err_def split: sum.splits)
qed

lemma checkUnsignedIntValue_1:
  "Operation_checkUnsignedIntValue nm (JNum (NumFin 1)) (Some weightCheckFunction) = Inr (JNum (NumFin 1))"
  using checkUnsignedIntValue_weight [of nm 1] by simp

lemma empty_attributes:
  "setOptions_attributes env (empty_opts\<lparr>signer := x\<rparr>) =
     Inr \<lparr>op_inflationDest = None, op_clearFlags = JUndefined, op_setFlags = JUndefined,
          op_masterWeight = JUndefined, op_lowThreshold = JUndefined,
          op_medThreshold = JUndefined, op_highThreshold = JUndefined,
          op_homeDomain = JUndefined, op_signer = None\<rparr>"
  by (simp add: setOptions_attributes_def empty_opts_def bind_err_def checkUnsignedIntValue_undefined)

lemma empty_source: "Operation_setSourceAccount env (empty_opts\<lparr>signer := x\<rparr>) = Inr None"
  by (simp add: Operation_setSourceAccount_def empty_opts_def)

lemma test_address_nonempty: "test_address \<noteq> []"
  by (simp add: test_address_def)

lemmas signer_eval = test_address_nonempty setOptions_signer_def Operation_isValidSignerType_def reference_env_simps
  signer_keys_def then_step_def signer_ed25519_def signer_preAuthTx_def signer_sha256Hash_def
  test_address_isValid test_address_decodes hex_to_buffer_def is_32_bytes_def bind_err_def

lemma signer_with_weight_result:
  "setOptions_signer reference_env signer_with_weight =
     (Inr (Signer (Some (signerKeyTypeEd25519 test_address_key)) (JNum (NumFin 1)) (JNum (NumFin 0))),
      signer_with_weight)"
  by (simp add: signer_eval signer_with_weight_def checkUnsignedIntValue_1)

lemma signer_without_weight_result:
  "setOptions_signer reference_env signer_without_weight =
     (Inr (Signer (Some (signerKeyTypeEd25519 test_address_key)) JUndefined (JNum (NumFin 0))),
      signer_without_weight)"
  by (simp add: signer_eval signer_without_weight_def checkUnsignedIntValue_undefined)

lemma setOptions_with_weight:
  "fst (Operation_setOptions reference_env (empty_opts\<lparr>signer := Some signer_with_weight\<rparr>)) =
     Inr \<lparr>sourceAccount = None,
          body = Body_setOption
            \<lparr>op_inflationDest = None, op_clearFlags = JUndefined, op_setFlags = JUndefined,
             op_masterWeight = JUndefined, op_lowThreshold = JUndefined,
             op_medThreshold = JUndefined, op_highThreshold = JUndefined,
             op_homeDomain = JUndefined,
             op_signer = Some (Signer (Some (signerKeyTypeEd25519 test_address_key))
               (JNum (NumFin 1)) (JNum (NumFin 0)))\<rparr>\<rparr>"
  by (simp add: Operation_setOptions_def empty_attributes empty_source signer_with_weight_result
      bind_err_def)

theorem setOptions_signer_spec_witness:
  "signer (empty_opts\<lparr>signer := Some signer_with_weight\<rparr>) = Some signer_with_weight
   \<and> \<not> isl (fst (Operation_setOptions reference_env (empty_opts\<lparr>signer := Some signer_with_weight\<rparr>)))
   \<and> key_fields_set signer_with_weight = 1
   \<and> SignerType_has reference_env (signerType signer_with_weight)"
  using setOptions_signer_spec [of "empty_opts\<lparr>signer := Some signer_with_weight\<rparr>"
      signer_with_weight reference_env] setOptions_with_weight
  by simp

text \<open>
  C3, as stated, fails: a signer without a weight is accepted, and the operation built
  carries the weight \<^verbatim>\<open>undefined\<close>.
\<close>

theorem setOptions_signer_no_weight_counterexample:
  "weight signer_without_weight = JUndefined
   \<and> fst (Operation_setOptions reference_env (empty_opts\<lparr>signer := Some signer_without_weight\<rparr>)) =
     Inr \<lparr>sourceAccount = None,
          body = Body_setOption
            \<lparr>op_inflationDest = None, op_clearFlags = JUndefined, op_setFlags = JUndefined,
             op_masterWeight = JUndefined, op_lowThreshold = JUndefined,
             op_medThreshold = JUndefined, op_highThreshold = JUndefined,
             op_homeDomain = JUndefined,
             op_signer = Some (Signer (Some (signerKeyTypeEd25519 test_address_key))
               JUndefined (JNum (NumFin 0)))\<rparr>\<rparr>"
  by (simp add: Operation_setOptions_def empty_attributes empty_source
      signer_without_weight_result bind_err_def) (simp add: signer_without_weight_def)

lemma setOptions_snd:
  "signer opts = Some sg \<Longrightarrow> setOptions_attributes env opts = Inr a \<Longrightarrow>
     snd (Operation_setOptions env opts) = opts\<lparr>signer := Some (snd (setOptions_signer env sg))\<rparr>"
  by (simp add: Operation_setOptions_def)

lemma setOptions_signer_snd:
  assumes "Operation_checkUnsignedIntValue ''signer.weight'' (weight sg) (Some weightCheckFunction) = Inr w"
    and "\<not> isUndefined (signerType sg)" "SignerType_has env (signerType sg)"
  shows "snd (setOptions_signer env sg) = st_signer (snd (signer_keys env sg))"
  using assms by (simp add: setOptions_signer_def Operation_isValidSignerType_def Let_def)

lemma signer_keys_preAuthTx:
  assumes "\<not> truthy (ed25519PublicKey sg)" "preAuthTx sg = JStr h" "h \<noteq> []"
    "Buffer_from_hex env h = Inr b"
  shows "preAuthTx (st_signer (snd (signer_keys env sg))) = JBuf b"
  using assms
  by (simp add: signer_keys_def then_step_def signer_ed25519_def signer_preAuthTx_def
      signer_sha256Hash_def hex_to_buffer_def bind_err_def split: sum.splits)

lemma signer_keys_sha256Hash:
  assumes "\<not> truthy (ed25519PublicKey sg)" "\<not> truthy (preAuthTx sg)" "sha256Hash sg = JStr h"
    "h \<noteq> []" "Buffer_from_hex env h = Inr b"
  shows "sha256Hash (st_signer (snd (signer_keys env sg))) = JBuf b"
  using assms
  by (simp add: signer_keys_def then_step_def signer_ed25519_def signer_preAuthTx_def
      signer_sha256Hash_def hex_to_buffer_def bind_err_def)

text \<open>
  C9. \<^verbatim>\<open>setOptions\<close> writes to its argument. When the call reaches the signer's keys (the
  other attributes, the weight and the signer type are accepted, and no account key is
  given) and \<^verbatim>\<open>preAuthTx\<close> is a non-empty string that \<^verbatim>\<open>Buffer.from(_, "hex")\<close> turns
  into the bytes \<open>b\<close>, the options object holds the buffer \<open>b\<close> in that field after the
  call, whether the call then succeeds or throws; likewise for \<^verbatim>\<open>sha256Hash\<close> when
  \<^verbatim>\<open>preAuthTx\<close> is not set. In both cases the object differs from the one passed in.
\<close>

theorem setOptions_overwrites_hash:
  assumes "signer opts = Some sg"
    and "setOptions_attributes env opts = Inr a"
    and "Operation_checkUnsignedIntValue ''signer.weight'' (weight sg) (Some weightCheckFunction) = Inr w"
    and "\<not> isUndefined (signerType sg)" "SignerType_has env (signerType sg)"
    and "\<not> truthy (ed25519PublicKey sg)"
    and "h \<noteq> []" "Buffer_from_hex env h = Inr b"
  shows "(preAuthTx sg = JStr h \<longrightarrow>
            map_option preAuthTx (signer (snd (Operation_setOptions env opts))) = Some (JBuf b)
            \<and> snd (Operation_setOptions env opts) \<noteq> opts)
       \<and> (sha256Hash sg = JStr h \<and> \<not> truthy (preAuthTx sg) \<longrightarrow>
            map_option sha256Hash (signer (snd (Operation_setOptions env opts))) = Some (JBuf b)
            \<and> snd (Operation_setOptions env opts) \<noteq> opts)"
proof -
  have s: "snd (Operation_setOptions env opts) = opts\<lparr>signer := Some (st_signer (snd (signer_keys env sg)))\<rparr>"
    using assms by (simp add: setOptions_snd setOptions_signer_snd)
  show ?thesis
  proof (intro conjI impI)
    assume p: "preAuthTx sg = JStr h"
    then show "map_option preAuthTx (signer (snd (Operation_setOptions env opts))) = Some (JBuf b)"
      using assms by (simp add: s signer_keys_preAuthTx)
    then show "snd (Operation_setOptions env opts) \<noteq> opts"
      using p assms(1) by auto
  next
    assume p: "sha256Hash sg = JStr h \<and> \<not> truthy (preAuthTx sg)"
    then show "map_option sha256Hash (signer (snd (Operation_setOptions env opts))) = Some (JBuf b)"
      using assms by (simp add: s signer_keys_sha256Hash)
    then show "snd (Operation_setOptions env opts) \<noteq> opts"
      using p assms(1) by auto
  qed
qed

lemma hex_00ff: "hex_decode ''00ff'' = Inr [0, 255]"
  by (simp add: hex_decode_def hex_val_def)

lemma signer_short_hash_result:
  "setOptions_signer reference_env signer_short_hash =
     (Inl (Error ''signer.preAuthTx must be 32 bytes Buffer.''),
      signer_short_hash\<lparr>preAuthTx := JBuf [0, 255]\<rparr>)"
  by (simp add: signer_eval signer_short_hash_def checkUnsignedIntValue_1 hex_00ff)

theorem setOptions_overwrites_hash_witness:
  "signer (empty_opts\<lparr>signer := Some signer_short_hash\<rparr>) = Some signer_short_hash
   \<and> preAuthTx signer_short_hash = JStr ''00ff''
   \<and> Buffer_from_hex reference_env ''00ff'' = Inr [0, 255]
   \<and> fst (Operation_setOptions reference_env (empty_opts\<lparr>signer := Some signer_short_hash\<rparr>))
       = Inl (Error ''signer.preAuthTx must be 32 bytes Buffer.'')
   \<and> map_option preAuthTx
        (signer (snd (Operation_setOptions reference_env (empty_opts\<lparr>signer := Some signer_short_hash\<rparr>))))
       = Some (JBuf [0, 255])
   \<and> snd (Operation_setOptions reference_env (empty_opts\<lparr>signer := Some signer_short_hash\<rparr>))
       \<noteq> empty_opts\<lparr>signer := Some signer_short_hash\<rparr>"
proof -
  have f: "fst (Operation_setOptions reference_env (empty_opts\<lparr>signer := Some signer_short_hash\<rparr>))
       = Inl (Error ''signer.preAuthTx must be 32 bytes Buffer.'')"
    by (simp add: Operation_setOptions_def empty_attributes signer_short_hash_result bind_err_def)
  have p: "preAuthTx signer_short_hash = JStr ''00ff''" "\<not> truthy (ed25519PublicKey signer_short_hash)"
    "\<not> isUndefined (signerType signer_short_hash)"
    "SignerType_has reference_env (signerType signer_short_hash)"
    "weight signer_short_hash = JNum (NumFin 1)"
    by (simp_all add: signer_short_hash_def reference_env_simps)
  have h: "Buffer_from_hex reference_env ''00ff'' = Inr [0, 255]"
    by (simp add: reference_env_simps hex_00ff)
  from setOptions_overwrites_hash [of "empty_opts\<lparr>signer := Some signer_short_hash\<rparr>"
      signer_short_hash reference_env _ "JNum (NumFin 1)" "''00ff''" "[0, 255]",
      OF _ empty_attributes _ p(3) p(4) p(2) _ h]
  show ?thesis
    using f p h by (simp add: checkUnsignedIntValue_1)
qed

section \<open>\<^verbatim>\<open>manageData\<close>\<close>

lemma isString_iff: "isString v \<longleftrightarrow> (\<exists>s. v = JStr s)"
  by (cases v) auto

lemma isBuffer_iff: "isBuffer v \<longleftrightarrow> (\<exists>b. v = JBuf b)"
  by (cases v) auto

lemma manageData_Inr:
  "Operation_manageData env opts = Inr op \<longleftrightarrow>
     (\<exists>n. name opts = JStr n \<and> length n \<le> 64)
     \<and> (\<exists>v. ((\<exists>s. value_opt opts = JStr s \<and> v = JBuf (utf8_encode s) \<and> length (utf8_encode s) \<le> 64)
             \<or> (\<exists>b. value_opt opts = JBuf b \<and> v = JBuf b \<and> length b \<le> 64)
             \<or> value_opt opts = JNull \<and> v = JNull)
          \<and> (\<exists>src. Operation_setSourceAccount env opts = Inr src
                \<and> op = \<lparr>sourceAccount = src, body = Body_manageDatum (name opts) v\<rparr>))"
proof (cases "name opts")
  case (JStr n)
  then show ?thesis
    by (cases "value_opt opts")
      (auto simp: Operation_manageData_def bind_err_def Let_def split: sum.splits)
qed (auto simp: Operation_manageData_def)

text \<open>
  C4 (as amended). \<^verbatim>\<open>manageData\<close> succeeds exactly when the name is a string of at most 64
  characters (code units, not bytes), the value is a string whose UTF-8 encoding has at
  most 64 bytes, a buffer of at most 64 bytes, or \<^verbatim>\<open>null\<close>, and the optional source
  account is accepted. On success the operation carries the name and the value as bytes;
  a \<^verbatim>\<open>null\<close> value stays \<^verbatim>\<open>null\<close> (the entry is to be deleted). A failure returns an
  error and no operation.
\<close>

theorem manageData_spec:
  "(\<not> isl (Operation_manageData env opts) \<longleftrightarrow>
      (\<exists>n. name opts = JStr n \<and> length n \<le> 64)
      \<and> ((\<exists>s. value_opt opts = JStr s \<and> length (utf8_encode s) \<le> 64)
          \<or> (\<exists>b. value_opt opts = JBuf b \<and> length b \<le> 64)
          \<or> value_opt opts = JNull)
      \<and> \<not> isl (Operation_setSourceAccount env opts))
   \<and> (\<forall>op. Operation_manageData env opts = Inr op \<longrightarrow>
         (\<exists>v. body op = Body_manageDatum (name opts) v
            \<and> (value_opt opts = JNull \<longrightarrow> v = JNull)
            \<and> (\<forall>s. value_opt opts = JStr s \<longrightarrow> v = JBuf (utf8_encode s))
            \<and> (\<forall>b. value_opt opts = JBuf b \<longrightarrow> v = JBuf b)))"
proof (intro conjI allI impI)
  show "\<not> isl (Operation_manageData env opts) \<longleftrightarrow>
      (\<exists>n. name opts = JStr n \<and> length n \<le> 64)
      \<and> ((\<exists>s. value_opt opts = JStr s \<and> length (utf8_encode s) \<le> 64)
          \<or> (\<exists>b. value_opt opts = JBuf b \<and> length b \<le> 64)
          \<or> value_opt opts = JNull)
      \<and> \<not> isl (Operation_setSourceAccount env opts)"
  proof (cases "Operation_manageData env opts")
    case (Inl e)
    then have "\<And>op. Operation_manageData env opts \<noteq> Inr op"
      by simp
    then show ?thesis
      unfolding manageData_Inr using Inl
      by (cases "Operation_setSourceAccount env opts") auto
  next
    case (Inr op)
    then show ?thesis
      using Inr [unfolded manageData_Inr] by auto
  qed
next
  fix op
  assume "Operation_manageData env opts = Inr op"
  then show "\<exists>v. body op = Body_manageDatum (name opts) v
            \<and> (value_opt opts = JNull \<longrightarrow> v = JNull)
            \<and> (\<forall>s. value_opt opts = JStr s \<longrightarrow> v = JBuf (utf8_encode s))
            \<and> (\<forall>b. value_opt opts = JBuf b \<longrightarrow> v = JBuf b)"
    unfolding manageData_Inr by auto
qed

lemma utf8_length_replicate:
  "length (utf8_encode (replicate n c)) = (if (of_char c :: nat) < 128 then n else 2 * n)"
  by (induction n) (auto simp: utf8_encode_def)

lemma empty_source': "Operation_setSourceAccount env (empty_opts\<lparr>name := x, value_opt := y\<rparr>) = Inr None"
  by (simp add: Operation_setSourceAccount_def empty_opts_def)

text \<open>
  C4, as stated, fails: a name of 40 code units \<^verbatim>\<open>U+00E9\<close> is 80 bytes long in UTF-8 and is
  accepted; and a value that is left out (\<^verbatim>\<open>undefined\<close>, not \<^verbatim>\<open>null\<close>) is rejected.
\<close>

theorem manageData_name_bytes_counterexample:
  "length (replicate 40 (CHR 0xE9)) = 40
   \<and> length (utf8_encode (replicate 40 (CHR 0xE9))) = 80
   \<and> Operation_manageData reference_env
        (empty_opts\<lparr>name := JStr (replicate 40 (CHR 0xE9)), value_opt := JNull\<rparr>)
      = Inr \<lparr>sourceAccount = None,
             body = Body_manageDatum (JStr (replicate 40 (CHR 0xE9))) JNull\<rparr>
   \<and> Operation_manageData reference_env (empty_opts\<lparr>name := JStr ''name'', value_opt := JUndefined\<rparr>)
      = Inl (Error ''value must be a string, Buffer or null'')"
  by (simp add: utf8_length_replicate Operation_manageData_def empty_source' bind_err_def)

theorem manageData_spec_witness:
  "Operation_manageData reference_env (empty_opts\<lparr>name := JStr ''name'', value_opt := JStr ''value''\<rparr>)
     = Inr \<lparr>sourceAccount = None, body = Body_manageDatum (JStr ''name'') (JBuf [118, 97, 108, 117, 101])\<rparr>
   \<and> (\<exists>v. body \<lparr>sourceAccount = None, body = Body_manageDatum (JStr ''name'') (JBuf [118, 97, 108, 117, 101])\<rparr>
          = Body_manageDatum (JStr ''name'') v \<and> v = JBuf (utf8_encode ''value''))"
proof -
  have e: "Operation_manageData reference_env (empty_opts\<lparr>name := JStr ''name'', value_opt := JStr ''value''\<rparr>)
     = Inr \<lparr>sourceAccount = None, body = Body_manageDatum (JStr ''name'') (JBuf [118, 97, 108, 117, 101])\<rparr>"
    by (simp add: Operation_manageData_def empty_source' bind_err_def utf8_encode_def)
  show ?thesis
    using manageData_spec [of reference_env "empty_opts\<lparr>name := JStr ''name'', value_opt := JStr ''value''\<rparr>"] e
    by (simp add: utf8_encode_def)
qed

section \<open>Amounts and destinations in the builders\<close>

lemma bn_ONE: "bn_of_nat ONE = BN_Finite False 1 7"
  by (simp add: ONE_def numeral_eval)

lemma BigNumber_new_0: "BigNumber_new env ''0'' = Inr (BN_Finite False 0 0)"
  by (simp add: numeral_eval)

lemma MAX_INT64_value: "MAX_INT64_BigNumber = BN_Finite False 9223372036854775807 0"
  by (simp add: MAX_INT64_BigNumber_def numeral_eval)

lemma isValidAmount_0: "Operation_isValidAmount env (JStr ''0'') allowZero = allowZero"
  by (simp add: Operation_isValidAmount_def BigNumber_new_0 bn_ONE MAX_INT64_value normalise_def
      signed_coeff_def)









section \<open>\<^verbatim>\<open>isValidAmount\<close>\<close>

lemma digits_lower: "0 < n \<Longrightarrow> 10 ^ (length (digits_of_nat n) - 1) \<le> n"
proof (rule ccontr)
  assume n: "0 < n" and "\<not> 10 ^ (length (digits_of_nat n) - 1) \<le> n"
  then have lt: "n < 10 ^ (length (digits_of_nat n) - 1)"
    by simp
  show False
  proof (cases "length (digits_of_nat n) - 1 = 0")
    case True
    with lt n show False by simp
  next
    case False
    then have "length (digits_of_nat n) \<le> length (digits_of_nat n) - 1"
      using lt by (intro digits_length_le) auto
    with False show False by simp
  qed
qed

lemma normalise_gt_MAX:
  assumes "0 \<le> x"
  shows "bn_greaterThan (normalise False c x) MAX_INT64_BigNumber
    \<longleftrightarrow> 9223372036854775807 < c * 10 ^ nat x"
proof (cases "c = 0")
  case True
  then show ?thesis
    by (simp add: normalise_def MAX_INT64_value signed_coeff_def)
next
  case False
  then have pos: "0 < c" by simp
  obtain c' x' where sz: "strip_zeros c x = (c', x')"
    by (cases "strip_zeros c x")
  from strip_zeros_pos [OF pos sz]
  have s: "0 < c'" "x \<le> x'" "c = c' * 10 ^ nat (x' - x)"
    by auto
  have val: "c * 10 ^ nat x = c' * 10 ^ nat x'"
  proof -
    have "nat x' = nat (x' - x) + nat x"
      using assms s(2) by simp
    then show ?thesis
      by (simp add: s(3) power_add)
  qed
  define len where "len = length (digits_of_nat c')"
  have len: "0 < len" "10 ^ (len - 1) \<le> c'"
    using digits_length_pos [of c'] digits_lower [OF s(1)] by (simp_all add: len_def)
  show ?thesis
  proof (cases "MAX_EXP < x' + int len - 1")
    case True
    then have "19 \<le> nat x' + (len - 1)"
      using assms s(2) len(1) by (simp add: MAX_EXP_def)
    then have "(10::nat) ^ 19 \<le> 10 ^ (nat x' + (len - 1))"
      by (intro power_increasing) auto
    also have "\<dots> = 10 ^ (len - 1) * 10 ^ nat x'"
      by (simp add: power_add)
    also have "\<dots> \<le> c' * 10 ^ nat x'"
      using len(2) by simp
    finally have "9223372036854775807 < c * 10 ^ nat x"
      by (simp add: val)
    then show ?thesis
      using True s(1) by (simp add: normalise_def sz len_def MAX_INT64_value)
  next
    case False
    have "\<not> x' + int len - 1 < MIN_EXP"
      using assms s(2) len(1) by (simp add: MIN_EXP_def)
    then have n: "normalise False c x = BN_Finite False c' x'"
      using False s(1) by (simp add: normalise_def sz len_def)
    have "0 \<le> x'" using assms s(2) by simp
    then have "(9223372036854775807 < int c' * 10 ^ nat x') = (9223372036854775807 < c' * 10 ^ nat x')"
      by (metis (mono_tags) of_nat_less_iff of_nat_mult of_nat_numeral of_nat_power)
    then show ?thesis
      using \<open>0 \<le> x'\<close> by (simp add: n MAX_INT64_value signed_coeff_def val)
  qed
qed

lemma isValidAmount_Finite:
  assumes "BigNumber_new env s = Inr (BN_Finite neg c x)"
  shows "Operation_isValidAmount env (JStr s) allowZero \<longleftrightarrow>
     \<not> neg \<and> - 7 \<le> x \<and> c * 10 ^ nat (x + 7) \<le> 9223372036854775807 \<and> (allowZero \<or> c \<noteq> 0)"
proof (cases "- 7 \<le> x")
  case True
  then have "0 \<le> x + 7" by simp
  from normalise_gt_MAX [OF this, of c] True show ?thesis
    by (auto simp: Operation_isValidAmount_def assms bn_ONE not_less)
next
  case False
  then have "7 < nat (- x)" by simp
  with False show ?thesis
    by (simp add: Operation_isValidAmount_def assms)
qed

lemma isValidAmount_not_Finite:
  assumes "BigNumber_new env s = Inr b" "\<not> bn_isFinite b"
  shows "\<not> Operation_isValidAmount env (JStr s) allowZero"
  using assms by (cases b) (auto simp: Operation_isValidAmount_def bn_ONE MAX_INT64_value)

lemma isValidAmount_iff:
  "Operation_isValidAmount env v allowZero \<longleftrightarrow>
     (\<exists>s c x. v = JStr s \<and> BigNumber_new env s = Inr (BN_Finite False c x)
        \<and> - 7 \<le> x \<and> c * 10 ^ nat (x + 7) \<le> 9223372036854775807 \<and> (allowZero \<or> c \<noteq> 0))"
proof (cases v)
  case (JStr s)
  show ?thesis
  proof (cases "BigNumber_new env s")
    case (Inl e)
    then show ?thesis
      by (simp add: JStr Operation_isValidAmount_def)
  next
    case (Inr b)
    show ?thesis
    proof (cases b)
      case (BN_Finite neg c x)
      then show ?thesis
        using isValidAmount_Finite [of env s neg c x allowZero] Inr JStr by auto
    qed (use Inr JStr isValidAmount_not_Finite [of env s b allowZero] in auto)
  qed
qed (simp_all add: Operation_isValidAmount_def)

lemma parse_max: "BigNumber_new env ''922337203685.4775807'' = Inr (BN_Finite False 9223372036854775807 (- 7))"
  by (simp add: numeral_eval)

lemma parse_max1: "BigNumber_new env ''922337203685.4775808'' = Inr (BN_Finite False 9223372036854775808 (- 7))"
  by (simp add: numeral_eval)

lemma parse_8dp: "BigNumber_new env ''0.12345678'' = Inr (BN_Finite False 12345678 (- 8))"
  by (simp add: numeral_eval)

text \<open>
  C1 (as amended). \<^verbatim>\<open>isValidAmount(value, allowZero)\<close> is true exactly when the value is a
  string that bignumber.js reads as a finite decimal \<open>c * 10 ^ x\<close> written without a minus
  sign, with at most seven decimal places once trailing zeros are dropped (\<open>- 7 \<le> x\<close>),
  whose multiple by 10,000,000 is at most 9223372036854775807, and which is not zero unless
  \<^verbatim>\<open>allowZero\<close> holds. The largest amount is accepted, one unit more is not; \<^verbatim>\<open>"0"\<close> is
  accepted only with \<^verbatim>\<open>allowZero\<close>; eight decimal places are not accepted; the number 100
  is not accepted.
\<close>

theorem isValidAmount_spec:
  "(Operation_isValidAmount env v allowZero \<longleftrightarrow>
      (\<exists>s c x. v = JStr s \<and> BigNumber_new env s = Inr (BN_Finite False c x)
         \<and> - 7 \<le> x \<and> c * 10 ^ nat (x + 7) \<le> 9223372036854775807 \<and> (allowZero \<or> c \<noteq> 0)))
   \<and> Operation_isValidAmount env (JStr ''922337203685.4775807'') False
   \<and> \<not> Operation_isValidAmount env (JStr ''922337203685.4775808'') False
   \<and> \<not> Operation_isValidAmount env (JStr ''0'') False
   \<and> Operation_isValidAmount env (JStr ''0'') True
   \<and> \<not> Operation_isValidAmount env (JStr ''0.12345678'') False
   \<and> \<not> Operation_isValidAmount env (JNum (NumFin 100)) False"
proof (intro conjI)
  show "Operation_isValidAmount env v allowZero \<longleftrightarrow>
      (\<exists>s c x. v = JStr s \<and> BigNumber_new env s = Inr (BN_Finite False c x)
         \<and> - 7 \<le> x \<and> c * 10 ^ nat (x + 7) \<le> 9223372036854775807 \<and> (allowZero \<or> c \<noteq> 0))"
    by (rule isValidAmount_iff)
  show "Operation_isValidAmount env (JStr ''922337203685.4775807'') False"
    by (simp add: isValidAmount_Finite [OF parse_max])
  show "\<not> Operation_isValidAmount env (JStr ''922337203685.4775808'') False"
    by (simp add: isValidAmount_Finite [OF parse_max1])
  show "\<not> Operation_isValidAmount env (JStr ''0'') False"
    by (simp add: isValidAmount_0)
  show "Operation_isValidAmount env (JStr ''0'') True"
    by (simp add: isValidAmount_0)
  show "\<not> Operation_isValidAmount env (JStr ''0.12345678'') False"
    by (simp add: isValidAmount_Finite [OF parse_8dp])
  show "\<not> Operation_isValidAmount env (JNum (NumFin 100)) False"
    by (simp add: Operation_isValidAmount_def)
qed

text \<open>
  C1, as stated, fails at \<^verbatim>\<open>"-0"\<close>: the string denotes zero, which is not negative, has no
  fractional digit and is in range, yet \<^verbatim>\<open>isNegative\<close> reads the sign bignumber.js keeps on
  a zero, and the amount is refused even with \<^verbatim>\<open>allowZero\<close>. It also fails at
  \<^verbatim>\<open>"1.00000000"\<close>: the string has eight fractional digits, but \<^verbatim>\<open>decimalPlaces\<close> counts
  those of the number read, none, and the amount is accepted.
\<close>

theorem isValidAmount_negative_zero_counterexample:
  "BigNumber_new reference_env ''-0'' = Inr (BN_Finite True 0 0)
   \<and> bn_val (BN_Finite True 0 0) = 0
   \<and> \<not> Operation_isValidAmount reference_env (JStr ''-0'') True
   \<and> BigNumber_new reference_env ''1.00000000'' = Inr (BN_Finite False 1 0)
   \<and> bn_decimalPlaces (BN_Finite False 1 0) = Some 0
   \<and> Operation_isValidAmount reference_env (JStr ''1.00000000'') False"
proof -
  have p: "BigNumber_new reference_env ''-0'' = Inr (BN_Finite True 0 0)"
    by (simp add: numeral_eval)
  have q: "BigNumber_new reference_env ''1.00000000'' = Inr (BN_Finite False 1 0)"
    by (simp add: numeral_eval)
  have "\<not> Operation_isValidAmount reference_env (JStr ''-0'') True"
    by (simp add: Operation_isValidAmount_def p)
  moreover have "Operation_isValidAmount reference_env (JStr ''1.00000000'') False"
    by (simp add: isValidAmount_Finite [OF q])
  ultimately show ?thesis
    by (simp add: p q)
qed

theorem isValidAmount_spec_witness:
  "BigNumber_new reference_env ''0.10'' = Inr (BN_Finite False 1 (- 1))
   \<and> Operation_isValidAmount reference_env (JStr ''0.10'') False
   \<and> isl (BigNumber_new reference_env ''test'')
   \<and> \<not> Operation_isValidAmount reference_env (JStr ''test'') False"
proof -
  have p: "BigNumber_new reference_env ''0.10'' = Inr (BN_Finite False 1 (- 1))"
    by (simp add: numeral_eval)
  have q: "BigNumber_new reference_env ''test'' = Inl (Error ''new BigNumber() not a number: test'')"
    by (simp add: numeral_eval reference_env_simps)
  show ?thesis
    using isValidAmount_spec [of reference_env "JStr ''0.10''" False]
      isValidAmount_spec [of reference_env "JStr ''test''" False]
    by (simp add: p q)
qed

section \<open>Amounts on the wire and back\<close>











section \<open>Reading a printed amount back\<close>












section \<open>Decoding what a builder built\<close>




























section \<open>The round trip\<close>
















end
